theory Spec2Isabelle
  imports Complex_Main "HOL-Library.AList"
begin

section \<open>Python values, errors and log records\<close>

text \<open>
  The core modules of \<^verbatim>\<open>py21cmmc/core.py\<close> are Python objects whose attributes are read by
  name (\<^verbatim>\<open>hasattr\<close>, \<^verbatim>\<open>getattr\<close>), so an instance is modelled as its class together with its
  attribute dictionary, and attribute values live in one universe of Python values.

  A float that is a number is a real; the not-a-number float occurs only inside NumPy arrays
  here and has its own constructor there.
\<close>

datatype npfloat = NaN | Fin real

datatype pyval =
    PNone
  | PBool bool
  | PInt int
  | PFloat real
  | PStr string
  | PList "pyval list"
  | PTuple "pyval list"
  | PDict "(string \<times> pyval) list"
  | PArray "npfloat list"
  | PArray2 "npfloat list list"
  | PStruct string "(string \<times> pyval) list" "string list"
  | PObject nat "(string \<times> pyval) list"
  | PRef nat

text \<open>
  \<open>PStruct c d ks\<close> is a parameter structure of the simulation engine (\<^verbatim>\<open>p21.UserParams\<close>,
  \<^verbatim>\<open>p21.AstroParams\<close>, ...): its class name, the dictionary its \<^verbatim>\<open>.self\<close> property returns and
  the keys of its \<^verbatim>\<open>.defining_dict\<close>. \<open>PObject n d\<close> is an output of the engine (initial
  conditions, a perturbed field, a coeval cube): the identity of the object and its
  attributes. \<open>PRef n\<close> is a callable (a storage function, a noise function), known by its
  identity \<open>n\<close> only. None of the three has \<^verbatim>\<open>__len__\<close>.
\<close>

type_synonym pydict = "(string \<times> pyval) list"

datatype error =
    ValueError string
  | AttributeError string
  | TypeError
  | KeyError string
  | IndexError
  | NotAChain
  | NotSetupError
  | AlreadySetupError
  | EngineError string

datatype log_record =
    LogWarning string
  | LogError string
  | LogInfo string
  | LogDebug string
  | UserWarning string

text \<open>\<^verbatim>\<open>hasattr(x, "__len__")\<close>\<close>

fun has_len :: "pyval \<Rightarrow> bool" where
  "has_len (PStr _) = True"
| "has_len (PList _) = True"
| "has_len (PTuple _) = True"
| "has_len (PDict _) = True"
| "has_len (PArray _) = True"
| "has_len (PArray2 _) = True"
| "has_len _ = False"

text \<open>
  The sequences among the values: strings, lists, tuples and arrays. A dictionary has
  \<^verbatim>\<open>__len__\<close> and is not a sequence.
\<close>

fun is_sequence :: "pyval \<Rightarrow> bool" where
  "is_sequence (PStr _) = True"
| "is_sequence (PList _) = True"
| "is_sequence (PTuple _) = True"
| "is_sequence (PArray _) = True"
| "is_sequence (PArray2 _) = True"
| "is_sequence _ = False"

text \<open>\<^verbatim>\<open>len(x)\<close>, a \<^verbatim>\<open>TypeError\<close> for an object without \<^verbatim>\<open>__len__\<close>\<close>

fun py_len :: "pyval \<Rightarrow> error + nat" where
  "py_len (PStr s) = Inr (length s)"
| "py_len (PList xs) = Inr (length xs)"
| "py_len (PTuple xs) = Inr (length xs)"
| "py_len (PDict d) = Inr (length d)"
| "py_len (PArray xs) = Inr (length xs)"
| "py_len (PArray2 rows) = Inr (length rows)"
| "py_len _ = Inl TypeError"

text \<open>A dictionary is an association list with distinct keys, in insertion order.\<close>

definition dict_update :: "pydict \<Rightarrow> pydict \<Rightarrow> pydict" where
  "dict_update d new = fold (\<lambda>(k, v) acc. AList.update k v acc) new d"

definition dict_get :: "pydict \<Rightarrow> string \<Rightarrow> pyval \<Rightarrow> pyval" where
  "dict_get d k dflt = (case map_of d k of None \<Rightarrow> dflt | Some v \<Rightarrow> v)"

section \<open>Classes and instances\<close>

datatype cid =
    Object
  | ModuleBase
  | CoreBase
  | CoreCoevalModule
  | CoreLightConeModule
  | CoreLuminosityFunction
  | UserClass nat

text \<open>
  An element of \<^verbatim>\<open>required_cores\<close> is a class, or a tuple of alternative classes.
\<close>

datatype required = ReqClass cid | ReqTuple "cid list"

text \<open>
  What the code reads of a class: its \<^verbatim>\<open>__name__\<close>; its method resolution order, each class
  with the list \<^verbatim>\<open>inspect.getfullargspec(cls.__init__).args\<close> (the positional-or-keyword
  parameters of its constructor; keyword-only parameters are in \<^verbatim>\<open>kwonlyargs\<close> and not in this
  list); the keyword-only parameters of those constructors, \<open>kwonly\<close>; and the class
  attributes \<^verbatim>\<open>_extra_defining_attributes\<close>, \<^verbatim>\<open>_ignore_attributes\<close> and \<^verbatim>\<open>required_cores\<close> as
  attribute lookup resolves them.
\<close>

record pyclass =
  cname :: string
  mro :: "(cid \<times> string list) list"
  kwonly :: "string list"
  extra_defining_attributes :: "string list"
  ignore_attributes :: "string list"
  required_cores :: "required list"

definition object_args :: "(cid \<times> string list) list" where
  "object_args = [(Object, [''self''])]"

definition ModuleBase_mro :: "(cid \<times> string list) list" where
  "ModuleBase_mro = (ModuleBase, [''self'']) # object_args"

definition CoreBase_mro :: "(cid \<times> string list) list" where
  "CoreBase_mro = (CoreBase, [''self'', ''store'']) # ModuleBase_mro"

definition CoreCoevalModule_mro :: "(cid \<times> string list) list" where
  "CoreCoevalModule_mro =
     (CoreCoevalModule,
      [''self'', ''redshift'', ''user_params'', ''flag_options'', ''astro_params'',
       ''cosmo_params'', ''regenerate'', ''change_seed_every_iter'', ''ctx_variables'',
       ''initial_conditions_seed'', ''global_params'']) # CoreBase_mro"

definition ModuleBase_class :: pyclass where
  "ModuleBase_class =
     \<lparr>cname = ''ModuleBase'', mro = ModuleBase_mro, kwonly = [], extra_defining_attributes = [],
      ignore_attributes = [], required_cores = []\<rparr>"

definition CoreBase_class :: pyclass where
  "CoreBase_class =
     \<lparr>cname = ''CoreBase'', mro = CoreBase_mro, kwonly = [], extra_defining_attributes = [],
      ignore_attributes = [], required_cores = []\<rparr>"

definition CoreCoevalModule_class :: pyclass where
  "CoreCoevalModule_class =
     \<lparr>cname = ''CoreCoevalModule'', mro = CoreCoevalModule_mro, kwonly = [],
      extra_defining_attributes = [], ignore_attributes = [''keep_data_in_memory''],
      required_cores = []\<rparr>"

text \<open>
  \<^verbatim>\<open>CoreLightConeModule.__init__(self, *, max_redshift=None, **kwargs)\<close>: its only
  positional-or-keyword parameter is \<^verbatim>\<open>self\<close>, and \<^verbatim>\<open>max_redshift\<close> is keyword-only.
\<close>

definition CoreLightConeModule_class :: pyclass where
  "CoreLightConeModule_class =
     \<lparr>cname = ''CoreLightConeModule'',
      mro = (CoreLightConeModule, [''self'']) # CoreCoevalModule_mro,
      kwonly = [''max_redshift''], extra_defining_attributes = [], ignore_attributes = [''keep_data_in_memory''],
      required_cores = []\<rparr>"

definition CoreLuminosityFunction_class :: pyclass where
  "CoreLuminosityFunction_class =
     \<lparr>cname = ''CoreLuminosityFunction'',
      mro = (CoreLuminosityFunction, [''self'', ''sigma'', ''name'', ''n_muv_bins''])
            # CoreCoevalModule_mro,
      kwonly = [], extra_defining_attributes = [], ignore_attributes = [''keep_data_in_memory''],
      required_cores = []\<rparr>"

text \<open>
  An instance: its class and the attributes \<^verbatim>\<open>getattr\<close> finds on it. The back-reference
  \<^verbatim>\<open>_LikelihoodComputationChain\<close> is not kept here: the chain is passed to the methods that
  read it.
\<close>

record pyobj =
  cls :: pyclass
  attrs :: "string \<rightharpoonup> pyval"

definition hasattr :: "pyobj \<Rightarrow> string \<Rightarrow> bool" where
  "hasattr ob a = (attrs ob a \<noteq> None)"

definition getattr :: "pyobj \<Rightarrow> string \<Rightarrow> error + pyval" where
  "getattr ob a = (case attrs ob a of None \<Rightarrow> Inl (AttributeError a) | Some v \<Rightarrow> Inr v)"

definition setattr :: "pyobj \<Rightarrow> string \<Rightarrow> pyval \<Rightarrow> pyobj" where
  "setattr ob a v = ob\<lparr>attrs := (attrs ob)(a \<mapsto> v)\<rparr>"

section \<open>Constructors\<close>

text \<open>Sequencing of computations that may raise.\<close>

definition bind_err :: "error + 'a \<Rightarrow> ('a \<Rightarrow> error + 'b) \<Rightarrow> error + 'b" where
  "bind_err m f = (case m of Inl e \<Rightarrow> Inl e | Inr x \<Rightarrow> f x)"

text \<open>
  The engine's structure constructors (\<^verbatim>\<open>p21.UserParams(x)\<close> and its siblings) are outside
  the repository: they are a parameter, given the class name and the argument, and may raise.
\<close>

type_synonym structs = "string \<Rightarrow> pyval \<Rightarrow> error + pyval"

definition new_instance :: "pyclass \<Rightarrow> pyobj" where
  "new_instance c = \<lparr>cls = c, attrs = Map.empty\<rparr>"

text \<open>\<^verbatim>\<open>ModuleBase.__init__\<close>\<close>

definition ModuleBase_init :: "pyobj \<Rightarrow> pyobj" where
  "ModuleBase_init self = setattr self ''_is_setup'' (PBool False)"

text \<open>
  \<^verbatim>\<open>CoreBase.__init__(self, store=None)\<close>: \<^verbatim>\<open>self.store = store or {}\<close>, for a \<^verbatim>\<open>store\<close> that
  is a dictionary or \<^verbatim>\<open>None\<close>.
\<close>

definition CoreBase_init :: "pyobj \<Rightarrow> pydict option \<Rightarrow> pyobj" where
  "CoreBase_init self store =
     setattr (ModuleBase_init self) ''store''
       (case store of None \<Rightarrow> PDict [] | Some d \<Rightarrow> (if d = [] then PDict [] else PDict d))"

text \<open>
  The arguments of \<^verbatim>\<open>CoreCoevalModule.__init__\<close>, typed as its docstring types them;
  \<open>a_io_options\<close> is the \<^verbatim>\<open>**io_options\<close> dictionary.
\<close>

record coeval_args =
  a_redshift :: pyval
  a_user_params :: pyval
  a_flag_options :: pyval
  a_astro_params :: pyval
  a_cosmo_params :: pyval
  a_regenerate :: bool
  a_change_seed_every_iter :: bool
  a_ctx_variables :: pyval
  a_initial_conditions_seed :: "int option"
  a_global_params :: "pydict option"
  a_io_options :: pydict

definition default_args :: "pyval \<Rightarrow> coeval_args" where
  "default_args z =
     \<lparr>a_redshift = z, a_user_params = PNone, a_flag_options = PNone, a_astro_params = PNone,
      a_cosmo_params = PNone, a_regenerate = True, a_change_seed_every_iter = False,
      a_ctx_variables = PTuple [PStr ''brightness_temp'', PStr ''xH_box''],
      a_initial_conditions_seed = None, a_global_params = None, a_io_options = []\<rparr>"

definition seed_val :: "int option \<Rightarrow> pyval" where
  "seed_val s = (case s of None \<Rightarrow> PNone | Some n \<Rightarrow> PInt n)"

text \<open>The truth value of an optional integer: \<^verbatim>\<open>None\<close> and \<^verbatim>\<open>0\<close> are false.\<close>

definition seed_truthy :: "int option \<Rightarrow> bool" where
  "seed_truthy s = (case s of None \<Rightarrow> False | Some n \<Rightarrow> n \<noteq> 0)"

text \<open>\<^verbatim>\<open>io_options.get("store", None)\<close>\<close>

definition store_option :: "pydict \<Rightarrow> pydict option" where
  "store_option io =
     (case map_of io ''store'' of Some (PDict d) \<Rightarrow> Some d | _ \<Rightarrow> None)"

definition seed_warning :: string where
  "seed_warning = ''Attempting to set initial conditions seed while desiring to change seeds every iteration. Unsetting initial conditions seed.''"

definition io_defaults :: pydict where
  "io_defaults = [(''store'', PDict []), (''cache_dir'', PNone), (''cache_mcmc'', PBool False)]"

text \<open>
  \<^verbatim>\<open>CoreCoevalModule.__init__\<close> on the instance \<open>self\<close>. The result is the instance and the
  records logged, or the error a structure constructor raised.
\<close>

definition CoreCoevalModule_init ::
  "structs \<Rightarrow> pyobj \<Rightarrow> coeval_args \<Rightarrow> error + (pyobj \<times> log_record list)" where
  "CoreCoevalModule_init p21 self a =
    (let s0 = CoreBase_init self (store_option (a_io_options a));
         s1 = setattr s0 ''redshift'' (a_redshift a);
         s1 = (if \<not> has_len (a_redshift a) then setattr s1 ''redshift'' (PList [a_redshift a])
               else s1)
     in bind_err (p21 ''UserParams'' (a_user_params a)) (\<lambda>up.
        bind_err (p21 ''FlagOptions'' (a_flag_options a)) (\<lambda>fo.
        bind_err (p21 ''AstroParams'' (a_astro_params a)) (\<lambda>ap.
        bind_err (p21 ''CosmoParams'' (a_cosmo_params a)) (\<lambda>cp.
        (let s2 = setattr s1 ''user_params'' up;
             s3 = setattr s2 ''flag_options'' fo;
             s4 = setattr s3 ''astro_params'' ap;
             s5 = setattr s4 ''cosmo_params'' cp;
             s6 = setattr s5 ''change_seed_every_iter'' (PBool (a_change_seed_every_iter a));
             s7 = setattr s6 ''initial_conditions_seed'' (seed_val (a_initial_conditions_seed a));
             s8 = setattr s7 ''regenerate'' (PBool (a_regenerate a));
             s9 = setattr s8 ''ctx_variables'' (a_ctx_variables a);
             s10 = setattr s9 ''global_params''
                     (case a_global_params a of None \<Rightarrow> PDict []
                      | Some g \<Rightarrow> (if g = [] then PDict [] else PDict g));
             s11 = setattr s10 ''io_options'' (PDict (dict_update io_defaults (a_io_options a)))
         in if seed_truthy (a_initial_conditions_seed a) \<and> a_change_seed_every_iter a
            then Inr (setattr s11 ''initial_conditions_seed'' PNone, [LogWarning seed_warning])
            else Inr (s11, [])))))))"

text \<open>
  \<^verbatim>\<open>CoreLightConeModule.__init__(self, *, max_redshift=None, **kwargs)\<close>; \<open>ctx_given\<close> says
  whether \<^verbatim>\<open>ctx_variables\<close> is among the keyword arguments.
\<close>

definition lightcone_warning :: string where
  "lightcone_warning = ''ctx_variables does not apply to the lightcone module (at least not yet). It will be ignored.''"

definition CoreLightConeModule_init ::
  "structs \<Rightarrow> pyobj \<Rightarrow> pyval \<Rightarrow> bool \<Rightarrow> coeval_args \<Rightarrow> error + (pyobj \<times> log_record list)" where
  "CoreLightConeModule_init p21 self max_redshift ctx_given a =
     (let w = (if ctx_given then [UserWarning lightcone_warning] else [])
      in bind_err (CoreCoevalModule_init p21 self a) (\<lambda>(s, lg).
           Inr (setattr s ''max_redshift'' max_redshift, w @ lg)))"

text \<open>
  \<^verbatim>\<open>CoreLuminosityFunction.__init__(self, sigma=None, name="", n_muv_bins=100, **kwargs)\<close>;
  \<open>name\<close> is the string \<^verbatim>\<open>str(name)\<close>.
\<close>

definition CoreLuminosityFunction_init ::
  "structs \<Rightarrow> pyobj \<Rightarrow> pyval \<Rightarrow> string \<Rightarrow> pyval \<Rightarrow> coeval_args
     \<Rightarrow> error + (pyobj \<times> log_record list)" where
  "CoreLuminosityFunction_init p21 self sigma name n_muv_bins a =
     (let s0 = setattr self ''_sigma'' sigma;
          s1 = setattr s0 ''name'' (PStr name);
          s2 = setattr s1 ''n_muv_bins'' n_muv_bins
      in CoreCoevalModule_init p21 s2 a)"

text \<open>
  A stand-in for the engine's structure constructors, for concrete evaluations: the structure
  holds the dictionary it is given and nothing else.
\<close>

definition plain_structs :: structs where
  "plain_structs c v =
     (case v of PNone \<Rightarrow> Inr (PStruct c [] [])
      | PDict d \<Rightarrow> Inr (PStruct c d (map fst d))
      | PStruct c' d ks \<Rightarrow> Inr (PStruct c d ks)
      | _ \<Rightarrow> Inl (EngineError c))"

section \<open>Equality of modules\<close>

text \<open>
  The truth value of \<^verbatim>\<open>a != b\<close>, which is the attribute values' own business, is a parameter
  of \<^verbatim>\<open>__eq__\<close>: a function that returns it or the exception the comparison raises.
\<close>

type_synonym compare = "pyval \<Rightarrow> pyval \<Rightarrow> error + bool"

text \<open>
  \<^verbatim>\<open>args\<close> of \<^verbatim>\<open>__eq__\<close>: the constructor parameters of every class of the method resolution
  order, without duplicates, then the extra defining attributes. Python leaves the order of
  \<^verbatim>\<open>tuple(set(args))\<close> open; it decides only which of several failures is met first.
\<close>

definition defining_names :: "pyclass \<Rightarrow> string list" where
  "defining_names c = remdups (concat (map snd (mro c))) @ extra_defining_attributes c"

text \<open>\<^verbatim>\<open>getattr(self, name) != getattr(other, name)\<close>, with \<open>v\<close> the value found on \<^verbatim>\<open>self\<close>\<close>

definition attr_differs :: "compare \<Rightarrow> pyval \<Rightarrow> pyobj \<Rightarrow> string \<Rightarrow> error + bool" where
  "attr_differs ne v other name = bind_err (getattr other name) (\<lambda>w. ne v w)"

text \<open>
  The loop of \<^verbatim>\<open>ModuleBase.__eq__\<close>. The two \<^verbatim>\<open>logger.warning\<close> calls (attribute not found,
  values not comparable) change nothing of the result and are the two places where the loop
  just goes on.
\<close>

fun eq_loop :: "compare \<Rightarrow> pyobj \<Rightarrow> pyobj \<Rightarrow> string list \<Rightarrow> error + bool" where
  "eq_loop ne self other [] = Inr True"
| "eq_loop ne self other (arg # args) =
     (if arg = ''self'' \<or> arg \<in> set (ignore_attributes (cls self))
      then eq_loop ne self other args
      else (case attrs self (''_'' @ arg) of
              Some v \<Rightarrow>
                (case attr_differs ne v other (''_'' @ arg) of
                   Inl (ValueError m) \<Rightarrow> eq_loop ne self other args
                 | Inl e \<Rightarrow> Inl e
                 | Inr d \<Rightarrow> (if d then Inr False else eq_loop ne self other args))
            | None \<Rightarrow>
                (case attrs self arg of
                   Some v \<Rightarrow>
                     (case attr_differs ne v other arg of
                        Inl (ValueError m) \<Rightarrow> eq_loop ne self other args
                      | Inl e \<Rightarrow> Inl e
                      | Inr d \<Rightarrow> (if d then Inr False else eq_loop ne self other args))
                 | None \<Rightarrow> eq_loop ne self other args)))"

text \<open>\<^verbatim>\<open>ModuleBase.__eq__\<close>\<close>

definition ModuleBase_eq :: "compare \<Rightarrow> pyobj \<Rightarrow> pyobj \<Rightarrow> error + bool" where
  "ModuleBase_eq ne self other =
     (if cname (cls self) \<noteq> cname (cls other) then Inr False
      else eq_loop ne self other (defining_names (cls self)))"

text \<open>
  What \<^verbatim>\<open>__eq__\<close> asks of one name: the attribute it resolves to on \<^verbatim>\<open>self\<close> (the
  private-prefixed one if there is one, else the public one) is found on \<^verbatim>\<open>other\<close> too and
  does not compare unequal: the two values compare equal, or comparing them raises
  \<^verbatim>\<open>ValueError\<close>. A name that resolves to nothing on \<^verbatim>\<open>self\<close> asks nothing.
\<close>

definition not_unequal :: "compare \<Rightarrow> pyval \<Rightarrow> pyobj \<Rightarrow> string \<Rightarrow> bool" where
  "not_unequal ne v other name =
     (case attr_differs ne v other name of
        Inl (ValueError m) \<Rightarrow> True | Inl e \<Rightarrow> False | Inr d \<Rightarrow> \<not> d)"

definition attr_agrees :: "compare \<Rightarrow> pyobj \<Rightarrow> pyobj \<Rightarrow> string \<Rightarrow> bool" where
  "attr_agrees ne self other arg =
     (case attrs self (''_'' @ arg) of
        Some v \<Rightarrow> not_unequal ne v other (''_'' @ arg)
      | None \<Rightarrow> (case attrs self arg of
                   Some v \<Rightarrow> not_unequal ne v other arg
                 | None \<Rightarrow> True))"

text \<open>The names \<^verbatim>\<open>__eq__\<close> compares: the defining names but \<^verbatim>\<open>self\<close> and the ignored ones.\<close>

definition compared_names :: "pyclass \<Rightarrow> string list" where
  "compared_names c =
     filter (\<lambda>arg. arg \<noteq> ''self'' \<and> arg \<notin> set (ignore_attributes c)) (defining_names c)"

text \<open>
  The fields the claim speaks of: the parameters the constructors of the class hierarchy
  declare, keyword-only ones included, and the extra defining attributes, without \<^verbatim>\<open>self\<close>
  and the ignored ones.
\<close>

definition declared_fields :: "pyclass \<Rightarrow> string list" where
  "declared_fields c =
     filter (\<lambda>arg. arg \<noteq> ''self'' \<and> arg \<notin> set (ignore_attributes c))
       (remdups (concat (map snd (mro c)) @ kwonly c) @ extra_defining_attributes c)"

text \<open>The attribute a field is read from on \<^verbatim>\<open>self\<close>, if there is one\<close>

definition stored_as :: "pyobj \<Rightarrow> string \<Rightarrow> string option" where
  "stored_as self arg =
     (if attrs self (''_'' @ arg) \<noteq> None then Some (''_'' @ arg)
      else if attrs self arg \<noteq> None then Some arg else None)"

text \<open>
  The truth value of \<^verbatim>\<open>a != b\<close> when \<open>a\<close> or \<open>b\<close> is a NumPy array. NumPy compares
  element by element, after making an array of the other operand and broadcasting; the truth
  value of the result is that of its element when it has one, false when it has none (an
  error from NumPy 2.2 on), and a \<^verbatim>\<open>ValueError\<close> when it has more than one. Operands that
  cannot be broadcast to a common shape raise a \<^verbatim>\<open>ValueError\<close> as well. So whenever an
  operand has more than one element the comparison raises \<^verbatim>\<open>ValueError\<close>; which of the two
  messages it carries is decided here by the numbers of elements alone.
\<close>

fun numeric :: "pyval \<Rightarrow> npfloat option" where
  "numeric (PBool b) = Some (Fin (if b then 1 else 0))"
| "numeric (PInt i) = Some (Fin (of_int i))"
| "numeric (PFloat r) = Some (Fin r)"
| "numeric _ = None"

fun elems :: "pyval \<Rightarrow> npfloat list option" where
  "elems (PArray x) = Some x"
| "elems (PArray2 rows) = Some (concat rows)"
| "elems (PList xs) = those (map numeric xs)"
| "elems (PTuple xs) = those (map numeric xs)"
| "elems v = map_option (\<lambda>x. [x]) (numeric v)"

fun is_array :: "pyval \<Rightarrow> bool" where
  "is_array (PArray x) = True"
| "is_array (PArray2 rows) = True"
| "is_array _ = False"

fun fl_ne :: "npfloat \<Rightarrow> npfloat \<Rightarrow> bool" where
  "fl_ne (Fin a) (Fin b) = (a \<noteq> b)"
| "fl_ne x y = True"

definition ambiguous :: error where
  "ambiguous = ValueError ''The truth value of an array with more than one element is ambiguous''"

definition unbroadcastable :: error where
  "unbroadcastable = ValueError ''operands could not be broadcast together''"

definition np_ne :: "pyval \<Rightarrow> pyval \<Rightarrow> error + bool" where
  "np_ne a b =
     (case elems a of
        Some x \<Rightarrow>
          (case elems b of
             Some y \<Rightarrow>
               (if 1 < length x \<or> 1 < length y then
                  (if length x = length y \<or> length x = 1 \<or> length y = 1 then Inl ambiguous
                   else Inl unbroadcastable)
                else (case (x, y) of ([u], [v]) \<Rightarrow> Inr (fl_ne u v) | _ \<Rightarrow> Inr False))
           | None \<Rightarrow> (if 1 < length x then Inl ambiguous else Inr (x \<noteq> [])))
      | None \<Rightarrow>
          (case elems b of
             Some y \<Rightarrow> (if 1 < length y then Inl ambiguous else Inr (y \<noteq> []))
           | None \<Rightarrow> Inr True))"

text \<open>
  Python's \<^verbatim>\<open>!=\<close>: NumPy decides when an operand is an array; numbers compare by value
  across \<^verbatim>\<open>bool\<close>, \<^verbatim>\<open>int\<close> and \<^verbatim>\<open>float\<close>; lists, tuples and dictionaries compare their
  lengths first and then their elements (a dictionary key by key, whatever the order);
  callables and engine outputs compare by identity.
\<close>

fun num_of :: "pyval \<Rightarrow> real option" where
  "num_of (PBool b) = Some (if b then 1 else 0)"
| "num_of (PInt i) = Some (of_int i)"
| "num_of (PFloat r) = Some r"
| "num_of _ = None"

fun py_ne :: "pyval \<Rightarrow> pyval \<Rightarrow> error + bool"
  and list_ne :: "pyval list \<Rightarrow> pyval list \<Rightarrow> error + bool"
  and dict_ne :: "(string \<times> pyval) list \<Rightarrow> (string \<times> pyval) list \<Rightarrow> error + bool" where
  "py_ne (PArray x) b = np_ne (PArray x) b"
| "py_ne (PArray2 x) b = np_ne (PArray2 x) b"
| "py_ne (PList xs) b =
     (if is_array b then np_ne (PList xs) b
      else (case b of
              PList ys \<Rightarrow> (if length xs \<noteq> length ys then Inr True else list_ne xs ys)
            | _ \<Rightarrow> Inr True))"
| "py_ne (PTuple xs) b =
     (if is_array b then np_ne (PTuple xs) b
      else (case b of
              PTuple ys \<Rightarrow> (if length xs \<noteq> length ys then Inr True else list_ne xs ys)
            | _ \<Rightarrow> Inr True))"
| "py_ne (PDict d) b =
     (if is_array b then np_ne (PDict d) b
      else (case b of
              PDict e \<Rightarrow> (if length d \<noteq> length e then Inr True else dict_ne d e)
            | _ \<Rightarrow> Inr True))"
| "py_ne (PStruct c d ks) b =
     (if is_array b then np_ne (PStruct c d ks) b
      else (case b of
              PStruct c' e ks' \<Rightarrow>
                (if c \<noteq> c' then Inr True
                 else if length d \<noteq> length e then Inr True else dict_ne d e)
            | _ \<Rightarrow> Inr True))"
| "py_ne PNone b = (if is_array b then np_ne PNone b else Inr (b \<noteq> PNone))"
| "py_ne (PBool p) b =
     (if is_array b then np_ne (PBool p) b
      else (case num_of b of Some y \<Rightarrow> Inr ((if p then 1 else 0) \<noteq> y) | None \<Rightarrow> Inr True))"
| "py_ne (PInt i) b =
     (if is_array b then np_ne (PInt i) b
      else (case num_of b of Some y \<Rightarrow> Inr (of_int i \<noteq> y) | None \<Rightarrow> Inr True))"
| "py_ne (PFloat r) b =
     (if is_array b then np_ne (PFloat r) b
      else (case num_of b of Some y \<Rightarrow> Inr (r \<noteq> y) | None \<Rightarrow> Inr True))"
| "py_ne (PStr s) b = (if is_array b then np_ne (PStr s) b else Inr (b \<noteq> PStr s))"
| "py_ne (PObject n d) b =
     (if is_array b then np_ne (PObject n d) b
      else (case b of PObject n' e \<Rightarrow> Inr (n \<noteq> n') | _ \<Rightarrow> Inr True))"
| "py_ne (PRef n) b = (if is_array b then np_ne (PRef n) b else Inr (b \<noteq> PRef n))"
| "list_ne [] ys = Inr False"
| "list_ne (x # xs) ys =
     (case ys of [] \<Rightarrow> Inr True
      | y # ys' \<Rightarrow> bind_err (py_ne x y) (\<lambda>d. if d then Inr True else list_ne xs ys'))"
| "dict_ne [] e = Inr False"
| "dict_ne ((k, v) # d) e =
     (case map_of e k of None \<Rightarrow> Inr True
      | Some w \<Rightarrow> bind_err (py_ne v w) (\<lambda>x. if x then Inr True else dict_ne d e))"

text \<open>\<^verbatim>\<open>A(...) == A(...)\<close>: construct two modules and compare them.\<close>

definition eq_constructed ::
  "compare \<Rightarrow> error + (pyobj \<times> log_record list) \<Rightarrow> error + (pyobj \<times> log_record list)
     \<Rightarrow> error + bool" where
  "eq_constructed ne r1 r2 =
     bind_err r1 (\<lambda>(o1, l1). bind_err r2 (\<lambda>(o2, l2). ModuleBase_eq ne o1 o2))"

section \<open>The chain and the context\<close>

text \<open>
  Modelled from the spec: the chain class \<^verbatim>\<open>LikelihoodComputationChain\<close> and its context
  (\<^verbatim>\<open>py21cmmc/mcmc/cosmoHammer\<close>) are not among the sources. The spec gives the chain an ordered
  sequence of stages and the parameter set, and makes it the sole source of "current sampled
  parameters" and "all loaded stages"; the context protocol is \<^verbatim>\<open>add(name, value)\<close>,
  \<^verbatim>\<open>get(name)\<close> and \<^verbatim>\<open>getParams()\<close>. \<open>ch_params\<close> is the parameter set (\<^verbatim>\<open>None\<close> for a chain
  without one), \<open>ch_cores\<close> is \<^verbatim>\<open>getCoreModules()\<close>, and \<open>ch_fresh_params\<close> is
  \<^verbatim>\<open>createChainContext().getParams()\<close>, the parameters of a context made outside an iteration.
\<close>

record chain =
  ch_params :: "pydict option"
  ch_cores :: "pyobj list"
  ch_fresh_params :: pydict

record ctx =
  ctx_params :: pydict
  ctx_data :: "string \<rightharpoonup> pyval"

definition ctx_add :: "ctx \<Rightarrow> string \<Rightarrow> pyval \<Rightarrow> ctx" where
  "ctx_add c k v = c\<lparr>ctx_data := (ctx_data c)(k \<mapsto> v)\<rparr>"

definition ctx_get :: "ctx \<Rightarrow> string \<Rightarrow> pyval" where
  "ctx_get c k = (case ctx_data c k of None \<Rightarrow> PNone | Some v \<Rightarrow> v)"

text \<open>The property \<^verbatim>\<open>chain\<close>: \<^verbatim>\<open>NotAChain\<close> for a module that no chain holds.\<close>

definition chain_of :: "chain option \<Rightarrow> error + chain" where
  "chain_of ch = (case ch of None \<Rightarrow> Inl NotAChain | Some c \<Rightarrow> Inr c)"

text \<open>The property \<^verbatim>\<open>_cores\<close>\<close>

definition cores_of :: "chain option \<Rightarrow> error + pyobj list" where
  "cores_of ch = bind_err (chain_of ch) (\<lambda>c. Inr (ch_cores c))"

text \<open>The property \<^verbatim>\<open>parameter_names\<close>: \<^verbatim>\<open>getattr(self.chain.params, "keys", [])\<close>\<close>

definition parameter_names :: "chain option \<Rightarrow> error + string list" where
  "parameter_names ch =
     bind_err (chain_of ch) (\<lambda>c. Inr (case ch_params c of None \<Rightarrow> [] | Some d \<Rightarrow> map fst d))"

section \<open>Required cores and setup\<close>

definition isinstance :: "pyobj \<Rightarrow> cid \<Rightarrow> bool" where
  "isinstance m r = (r \<in> set (map fst (mro (cls m))))"

text \<open>
  \<^verbatim>\<open>if not hasattr(rc, "__len__"): rc = (rc,)\<close>: a class becomes a tuple of one class.
\<close>

fun as_tuple :: "required \<Rightarrow> cid list" where
  "as_tuple (ReqClass c) = [c]"
| "as_tuple (ReqTuple cs) = cs"

text \<open>
  \<^verbatim>\<open>ModuleBase._check_required_cores\<close>. In its message \<^verbatim>\<open>rc\<close> is the tuple by then, so
  \<^verbatim>\<open>rc.__class__.__name__\<close> is \<^verbatim>\<open>tuple\<close>. \<^verbatim>\<open>self._cores\<close> is read once per requirement.
\<close>

fun ModuleBase_check_required_cores ::
  "chain option \<Rightarrow> pyobj \<Rightarrow> required list \<Rightarrow> error + unit" where
  "ModuleBase_check_required_cores ch self [] = Inr ()"
| "ModuleBase_check_required_cores ch self (rc # rcs) =
     bind_err (cores_of ch) (\<lambda>cores.
       if \<not> list_ex (\<lambda>m. list_ex (\<lambda>r. isinstance m r) (as_tuple rc)) cores
       then Inl (ValueError (cname (cls self) @ '' needs the '' @ ''tuple'' @ '' to be loaded.''))
       else ModuleBase_check_required_cores ch self rcs)"

text \<open>
  \<^verbatim>\<open>CoreBase._check_required_cores\<close>, which overrides it. Here \<^verbatim>\<open>rc\<close> is the element of
  \<^verbatim>\<open>required_cores\<close> itself, so \<^verbatim>\<open>rc.__class__.__name__\<close> is the name of the class of a class,
  \<^verbatim>\<open>type\<close>, or \<^verbatim>\<open>tuple\<close> for a group.
\<close>

fun class_of_required :: "required \<Rightarrow> string" where
  "class_of_required (ReqClass c) = ''type''"
| "class_of_required (ReqTuple cs) = ''tuple''"

fun CoreBase_check_core :: "pyobj \<Rightarrow> pyobj \<Rightarrow> required list \<Rightarrow> error + unit" where
  "CoreBase_check_core self core [] = Inr ()"
| "CoreBase_check_core self core (rc # rcs) =
     (if cname (cls core) = class_of_required rc then Inr ()
      else if cname (cls core) = cname (cls self)
      then Inl (ValueError (cname (cls self) @ '' requires '' @ class_of_required rc
                            @ '' to be loaded.''))
      else CoreBase_check_core self core rcs)"

fun CoreBase_check_cores :: "pyobj \<Rightarrow> pyobj list \<Rightarrow> error + unit" where
  "CoreBase_check_cores self [] = Inr ()"
| "CoreBase_check_cores self (core # cores) =
     bind_err (CoreBase_check_core self core (required_cores (cls self)))
       (\<lambda>u. CoreBase_check_cores self cores)"

definition CoreBase_check_required_cores :: "chain option \<Rightarrow> pyobj \<Rightarrow> error + unit" where
  "CoreBase_check_required_cores ch self =
     bind_err (cores_of ch) (\<lambda>cores. CoreBase_check_cores self cores)"

text \<open>
  \<^verbatim>\<open>self._check_required_cores()\<close>: the method of \<^verbatim>\<open>CoreBase\<close> for a class that has
  \<^verbatim>\<open>CoreBase\<close> in its method resolution order, the method of \<^verbatim>\<open>ModuleBase\<close> otherwise.
\<close>

definition check_required_cores :: "chain option \<Rightarrow> pyobj \<Rightarrow> error + unit" where
  "check_required_cores ch self =
     (if isinstance self CoreBase then CoreBase_check_required_cores ch self
      else ModuleBase_check_required_cores ch self (required_cores (cls self)))"

text \<open>
  \<^verbatim>\<open>ModuleBase.setup\<close>. It returns nothing and writes no attribute; the result here is the
  module as \<^verbatim>\<open>setup\<close> leaves it.
\<close>

definition ModuleBase_setup :: "chain option \<Rightarrow> pyobj \<Rightarrow> error + pyobj" where
  "ModuleBase_setup ch self = bind_err (check_required_cores ch self) (\<lambda>u. Inr self)"

text \<open>What the spec asks of a chain: every group has a loaded stage that is an instance of
  one of its members.\<close>

definition group_satisfied :: "pyobj list \<Rightarrow> required \<Rightarrow> bool" where
  "group_satisfied cores rc = list_ex (\<lambda>m. list_ex (\<lambda>r. isinstance m r) (as_tuple rc)) cores"

section \<open>Storage\<close>

text \<open>
  A storage function is a callable \<open>PRef n\<close>; what it does when called on a context is given
  by a table of the callables. Calling something else is a \<^verbatim>\<open>TypeError\<close>.
\<close>

type_synonym store_fns = "nat \<Rightarrow> ctx \<Rightarrow> error + pyval"

definition call_store :: "store_fns \<Rightarrow> pyval \<Rightarrow> ctx \<Rightarrow> error + pyval" where
  "call_store fns f c = (case f of PRef n \<Rightarrow> fns n c | _ \<Rightarrow> Inl TypeError)"

text \<open>
  The loop of \<^verbatim>\<open>CoreBase.prepare_storage\<close> over \<^verbatim>\<open>self.store.items()\<close>. \<^verbatim>\<open>storage\<close> is the
  caller's dictionary, written in place: the result is the dictionary as the call leaves it,
  the records logged, and the exception that left the call, if one did.
\<close>

fun prepare_storage_loop ::
  "store_fns \<Rightarrow> ctx \<Rightarrow> (string \<times> pyval) list \<Rightarrow> pydict
     \<Rightarrow> pydict \<times> log_record list \<times> error option" where
  "prepare_storage_loop fns c [] storage = (storage, [], None)"
| "prepare_storage_loop fns c ((name, f) # rest) storage =
     (case call_store fns f c of
        Inl e \<Rightarrow>
          (storage,
           [LogError (''Exception while trying to evaluate storage function '' @ name)], Some e)
      | Inr v \<Rightarrow> prepare_storage_loop fns c rest (AList.update name v storage))"

definition prepare_storage ::
  "store_fns \<Rightarrow> pyobj \<Rightarrow> ctx \<Rightarrow> pydict \<Rightarrow> pydict \<times> log_record list \<times> error option" where
  "prepare_storage fns self c storage =
     (case attrs self ''store'' of
        None \<Rightarrow> (storage, [], Some (AttributeError ''store''))
      | Some (PDict d) \<Rightarrow> prepare_storage_loop fns c d storage
      | Some v \<Rightarrow> (storage, [], Some (AttributeError ''items'')))"

text \<open>
  Storage functions for concrete evaluations: number 0 returns 1, number 1 returns the
  context's entry \<^verbatim>\<open>x\<close>, the others raise.
\<close>

definition demo_store_fns :: store_fns where
  "demo_store_fns n c =
     (if n = 0 then Inr (PInt 1) else if n = 1 then Inr (ctx_get c ''x'')
      else Inl (KeyError ''missing''))"

section \<open>The engine and its calls\<close>

text \<open>
  The simulation engine \<^verbatim>\<open>py21cmfast\<close> is outside the repository. A call of one of its
  functions is an event: the name of the function and its keyword arguments. The engine is a
  parameter that answers a call, given the calls made so far (its cache and its random state
  are its own), with a value or an exception. The world of a method is the calls made and the
  records logged.
\<close>

type_synonym event = "string \<times> pydict"

type_synonym engine = "event list \<Rightarrow> string \<Rightarrow> pydict \<Rightarrow> error + pyval"

record world =
  calls :: "event list"
  logs :: "log_record list"

type_synonym 'a io = "world \<Rightarrow> (error + 'a) \<times> world"

definition io_return :: "'a \<Rightarrow> 'a io" where
  "io_return x w = (Inr x, w)"

definition io_raise :: "error \<Rightarrow> 'a io" where
  "io_raise e w = (Inl e, w)"

definition io_lift :: "error + 'a \<Rightarrow> 'a io" where
  "io_lift r w = (r, w)"

definition io_bind :: "'a io \<Rightarrow> ('a \<Rightarrow> 'b io) \<Rightarrow> 'b io" where
  "io_bind m f w = (case m w of (Inl e, w') \<Rightarrow> (Inl e, w') | (Inr x, w') \<Rightarrow> f x w')"

definition emit :: "log_record \<Rightarrow> unit io" where
  "emit r w = (Inr (), w\<lparr>logs := logs w @ [r]\<rparr>)"

definition call_engine :: "engine \<Rightarrow> string \<Rightarrow> pydict \<Rightarrow> pyval io" where
  "call_engine eng f kw w = (eng (calls w) f kw, w\<lparr>calls := calls w @ [(f, kw)]\<rparr>)"

text \<open>Attributes and items of values\<close>

definition struct_self :: "pyval \<Rightarrow> error + pydict" where
  "struct_self v = (case v of PStruct c d ks \<Rightarrow> Inr d | _ \<Rightarrow> Inl (AttributeError ''self''))"

definition struct_defining_dict :: "pyval \<Rightarrow> error + string list" where
  "struct_defining_dict v =
     (case v of PStruct c d ks \<Rightarrow> Inr ks | _ \<Rightarrow> Inl (AttributeError ''defining_dict''))"

definition value_getattr :: "pyval \<Rightarrow> string \<Rightarrow> error + pyval" where
  "value_getattr v a =
     (case v of
        PObject n d \<Rightarrow> (case map_of d a of None \<Rightarrow> Inl (AttributeError a) | Some x \<Rightarrow> Inr x)
      | _ \<Rightarrow> Inl (AttributeError a))"

definition subscript :: "pyval \<Rightarrow> string \<Rightarrow> error + pyval" where
  "subscript v k =
     (case v of
        PDict d \<Rightarrow> (case map_of d k of None \<Rightarrow> Inl (KeyError k) | Some x \<Rightarrow> Inr x)
      | _ \<Rightarrow> Inl TypeError)"

definition py_iter :: "pyval \<Rightarrow> error + pyval list" where
  "py_iter v =
     (case v of
        PList xs \<Rightarrow> Inr xs
      | PTuple xs \<Rightarrow> Inr xs
      | PStr s \<Rightarrow> Inr (map (\<lambda>c. PStr [c]) s)
      | PDict d \<Rightarrow> Inr (map (\<lambda>(k, x). PStr k) d)
      | PArray xs \<Rightarrow> Inr (map (\<lambda>x. PArray [x]) xs)
      | PArray2 rows \<Rightarrow> Inr (map PArray rows)
      | _ \<Rightarrow> Inl TypeError)"

definition as_dict :: "pyval \<Rightarrow> error + pydict" where
  "as_dict v = (case v of PDict d \<Rightarrow> Inr d | _ \<Rightarrow> Inl TypeError)"

section \<open>The coeval module: parameters, setup, model data\<close>

text \<open>
  \<^verbatim>\<open>CoreCoevalModule._update_params(params)\<close>: the fiducial dictionaries, each updated with the
  sampled parameters whose names are keys of the structure's \<^verbatim>\<open>defining_dict\<close>, and made
  structures again.
\<close>

definition overlay :: "pydict \<Rightarrow> string list \<Rightarrow> pydict \<Rightarrow> pydict" where
  "overlay d ks params = dict_update d (filter (\<lambda>(k, v). k \<in> set ks) params)"

definition update_params :: "structs \<Rightarrow> pyobj \<Rightarrow> pydict \<Rightarrow> error + (pyval \<times> pyval)" where
  "update_params p21 self params =
     bind_err (getattr self ''astro_params'') (\<lambda>ap.
     bind_err (struct_self ap) (\<lambda>ap_dict.
     bind_err (getattr self ''cosmo_params'') (\<lambda>cp.
     bind_err (struct_self cp) (\<lambda>cp_dict.
     bind_err (struct_defining_dict ap) (\<lambda>ap_keys.
     bind_err (struct_defining_dict cp) (\<lambda>cp_keys.
     bind_err (p21 ''AstroParams'' (PDict (overlay ap_dict ap_keys params))) (\<lambda>ap'.
     bind_err (p21 ''CosmoParams'' (PDict (overlay cp_dict cp_keys params))) (\<lambda>cp'.
       Inr (ap', cp')))))))))"

text \<open>
  The test of \<^verbatim>\<open>CoreCoevalModule.setup\<close>: no parameter name of the chain is a key of
  \<^verbatim>\<open>self.cosmo_params.self\<close>, and the seed does not change every iteration.
\<close>

fun truthy :: "pyval \<Rightarrow> error + bool" where
  "truthy PNone = Inr False"
| "truthy (PBool b) = Inr b"
| "truthy (PInt i) = Inr (i \<noteq> 0)"
| "truthy (PFloat r) = Inr (r \<noteq> 0)"
| "truthy (PStr s) = Inr (s \<noteq> [])"
| "truthy (PList xs) = Inr (xs \<noteq> [])"
| "truthy (PTuple xs) = Inr (xs \<noteq> [])"
| "truthy (PDict d) = Inr (d \<noteq> [])"
| "truthy (PArray xs) =
     (if 1 < length xs then Inl ambiguous else Inr (xs \<noteq> [] \<and> xs \<noteq> [Fin 0]))"
| "truthy (PArray2 rows) =
     (if 1 < length (concat rows) then Inl ambiguous
      else Inr (concat rows \<noteq> [] \<and> concat rows \<noteq> [Fin 0]))"
| "truthy (PStruct c d ks) = Inr True"
| "truthy (PObject n d) = Inr True"
| "truthy (PRef n) = Inr True"

definition not_attr :: "pyobj \<Rightarrow> string \<Rightarrow> error + bool" where
  "not_attr self a = bind_err (getattr self a) (\<lambda>v. bind_err (truthy v) (\<lambda>b. Inr (\<not> b)))"

definition boxes_at_setup :: "chain option \<Rightarrow> pyobj \<Rightarrow> error + bool" where
  "boxes_at_setup ch self =
     bind_err (parameter_names ch) (\<lambda>names.
       if names = [] then not_attr self ''change_seed_every_iter''
       else
         bind_err (getattr self ''cosmo_params'') (\<lambda>cp.
         bind_err (struct_self cp) (\<lambda>cp_dict.
           if list_ex (\<lambda>p. p \<in> set (map fst cp_dict)) names then Inr False
           else not_attr self ''change_seed_every_iter'')))"

text \<open>
  One \<^verbatim>\<open>p21.perturb_field\<close> call per redshift, in order; \<open>kw z\<close> evaluates the keyword
  arguments of the call for the redshift \<open>z\<close>.
\<close>

fun perturb_fields ::
  "engine \<Rightarrow> (pyval \<Rightarrow> error + pydict) \<Rightarrow> pyval list \<Rightarrow> pyval list io" where
  "perturb_fields eng kw [] = io_return []"
| "perturb_fields eng kw (z # zs) =
     io_bind (io_lift (kw z)) (\<lambda>k.
     io_bind (call_engine eng ''perturb_field'' k) (\<lambda>pf.
     io_bind (perturb_fields eng kw zs) (\<lambda>pfs. io_return (pf # pfs))))"

text \<open>The keyword arguments of the engine calls\<close>

definition setup_ic_kwargs :: "pyobj \<Rightarrow> error + pydict" where
  "setup_ic_kwargs self =
     bind_err (getattr self ''user_params'') (\<lambda>up.
     bind_err (getattr self ''cosmo_params'') (\<lambda>cp.
     bind_err (getattr self ''io_options'') (\<lambda>io.
     bind_err (subscript io ''cache_dir'') (\<lambda>direc.
     bind_err (getattr self ''regenerate'') (\<lambda>regen.
     bind_err (getattr self ''initial_conditions_seed'') (\<lambda>seed.
     bind_err (getattr self ''global_params'') (\<lambda>gp.
     bind_err (as_dict gp) (\<lambda>g.
       Inr ([(''user_params'', up), (''cosmo_params'', cp), (''direc'', direc),
             (''regenerate'', regen), (''random_seed'', seed)] @ g)))))))))"

definition setup_pf_kwargs :: "pyobj \<Rightarrow> pyval \<Rightarrow> pyval \<Rightarrow> error + pydict" where
  "setup_pf_kwargs self ic z =
     bind_err (getattr self ''io_options'') (\<lambda>io.
     bind_err (subscript io ''cache_dir'') (\<lambda>direc.
     bind_err (getattr self ''regenerate'') (\<lambda>regen.
     bind_err (getattr self ''global_params'') (\<lambda>gp.
     bind_err (as_dict gp) (\<lambda>g.
       Inr ([(''redshift'', z), (''init_boxes'', ic), (''direc'', direc),
             (''regenerate'', regen)] @ g))))))"

definition current_ic_kwargs :: "pyobj \<Rightarrow> pyval \<Rightarrow> error + pydict" where
  "current_ic_kwargs self cosmo_params =
     bind_err (getattr self ''user_params'') (\<lambda>up.
     bind_err (getattr self ''io_options'') (\<lambda>io.
     bind_err (subscript io ''cache_dir'') (\<lambda>direc.
     bind_err (getattr self ''initial_conditions_seed'') (\<lambda>seed.
     bind_err (subscript io ''cache_mcmc'') (\<lambda>write.
     bind_err (getattr self ''global_params'') (\<lambda>gp.
     bind_err (as_dict gp) (\<lambda>g.
       Inr ([(''user_params'', up), (''cosmo_params'', cosmo_params), (''direc'', direc),
             (''regenerate'', PBool False), (''random_seed'', seed), (''write'', write)]
            @ g))))))))"

definition current_pf_kwargs :: "pyobj \<Rightarrow> pyval \<Rightarrow> pyval \<Rightarrow> error + pydict" where
  "current_pf_kwargs self ic z =
     bind_err (getattr self ''io_options'') (\<lambda>io.
     bind_err (subscript io ''cache_dir'') (\<lambda>direc.
     bind_err (subscript io ''cache_mcmc'') (\<lambda>write.
     bind_err (getattr self ''global_params'') (\<lambda>gp.
     bind_err (as_dict gp) (\<lambda>g.
       Inr ([(''redshift'', z), (''init_boxes'', ic), (''direc'', direc),
             (''regenerate'', PBool False), (''write'', write)] @ g))))))"

definition run_coeval_kwargs ::
  "pyobj \<Rightarrow> pyval \<Rightarrow> pyval \<Rightarrow> pyval list \<Rightarrow> error + pydict" where
  "run_coeval_kwargs self astro_params ic pfs =
     bind_err (getattr self ''redshift'') (\<lambda>zs.
     bind_err (getattr self ''flag_options'') (\<lambda>fo.
     bind_err (getattr self ''regenerate'') (\<lambda>regen.
     bind_err (getattr self ''initial_conditions_seed'') (\<lambda>seed.
     bind_err (getattr self ''io_options'') (\<lambda>io.
     bind_err (subscript io ''cache_mcmc'') (\<lambda>write.
     bind_err (subscript io ''cache_dir'') (\<lambda>direc.
     bind_err (getattr self ''global_params'') (\<lambda>gp.
     bind_err (as_dict gp) (\<lambda>g.
       Inr ([(''redshift'', zs), (''astro_params'', astro_params), (''flag_options'', fo),
             (''init_box'', ic), (''perturb'', PList pfs), (''regenerate'', regen),
             (''random_seed'', seed), (''write'', write), (''direc'', direc)] @ g))))))))))"

text \<open>
  The body of the conditional of \<^verbatim>\<open>CoreCoevalModule.setup\<close>. The initial conditions and the
  perturbed fields it computes are local variables of the method: of the initial conditions
  the seed is kept, in \<^verbatim>\<open>self.initial_conditions_seed\<close>, and nothing else of either is written
  to \<^verbatim>\<open>self\<close>.
\<close>

definition setup_boxes :: "engine \<Rightarrow> pyobj \<Rightarrow> pyobj io" where
  "setup_boxes eng s1 =
     io_bind (emit (LogInfo ''Initializing init and perturb boxes for the entire chain.'')) (\<lambda>u.
     io_bind (io_lift (setup_ic_kwargs s1)) (\<lambda>kw.
     io_bind (call_engine eng ''initial_conditions'' kw) (\<lambda>initial_conditions.
     io_bind (io_lift (value_getattr initial_conditions ''random_seed'')) (\<lambda>seed.
     (let s2 = setattr s1 ''initial_conditions_seed'' seed in
     io_bind (io_lift (bind_err (getattr s2 ''redshift'') py_iter)) (\<lambda>zs.
     io_bind (perturb_fields eng (setup_pf_kwargs s2 initial_conditions) zs) (\<lambda>perturb_field.
     io_bind (emit (LogInfo ''Initialization done.'')) (\<lambda>u. io_return s2))))))))"

text \<open>\<^verbatim>\<open>CoreCoevalModule.setup\<close>\<close>

definition CoreCoevalModule_setup ::
  "structs \<Rightarrow> engine \<Rightarrow> chain option \<Rightarrow> pyobj \<Rightarrow> pyobj io" where
  "CoreCoevalModule_setup p21 eng ch self =
     io_bind (io_lift (ModuleBase_setup ch self)) (\<lambda>s0.
     io_bind (io_lift (chain_of ch)) (\<lambda>c.
     io_bind (io_lift (update_params p21 s0 (ch_fresh_params c))) (\<lambda>(ap, cp).
     (let s1 = setattr (setattr s0 ''astro_params'' ap) ''cosmo_params'' cp in
     io_bind (io_lift (boxes_at_setup ch s1)) (\<lambda>b.
       if b then setup_boxes eng s1 else io_return s1)))))"

text \<open>\<^verbatim>\<open>CoreCoevalModule.get_current_init_and_perturb(cosmo_params)\<close>\<close>

definition get_current_init_and_perturb ::
  "engine \<Rightarrow> pyobj \<Rightarrow> pyval \<Rightarrow> (pyval \<times> pyval list) io" where
  "get_current_init_and_perturb eng self cosmo_params =
     io_bind (io_lift (current_ic_kwargs self cosmo_params)) (\<lambda>kw.
     io_bind (call_engine eng ''initial_conditions'' kw) (\<lambda>initial_conditions.
     io_bind (io_lift (bind_err (getattr self ''redshift'') py_iter)) (\<lambda>zs.
     io_bind (perturb_fields eng (current_pf_kwargs self initial_conditions) zs) (\<lambda>perturb_field.
       io_return (initial_conditions, perturb_field)))))"

text \<open>\<^verbatim>\<open>[getattr(c, key) for c in coeval]\<close>\<close>

fun gather :: "pyval list \<Rightarrow> string \<Rightarrow> error + pyval list" where
  "gather [] key = Inr []"
| "gather (c # cs) key =
     bind_err (value_getattr c key) (\<lambda>v. bind_err (gather cs key) (\<lambda>vs. Inr (v # vs)))"

fun add_ctx_variables :: "pyval list \<Rightarrow> pyval \<Rightarrow> ctx \<Rightarrow> error + ctx" where
  "add_ctx_variables [] coeval c = Inr c"
| "add_ctx_variables (key # keys) coeval c =
     (case key of
        PStr k \<Rightarrow>
          bind_err (py_iter coeval) (\<lambda>cs.
            case gather cs k of
              Inl (AttributeError a) \<Rightarrow>
                Inl (ValueError (''ctx_variable '' @ k @ '' not an attribute of Coeval''))
            | Inl e \<Rightarrow> Inl e
            | Inr vs \<Rightarrow> add_ctx_variables keys coeval (ctx_add c k (PList vs)))
      | _ \<Rightarrow> Inl TypeError)"

text \<open>
  \<^verbatim>\<open>CoreCoevalModule.build_model_data(ctx)\<close>. The debug records carry the text of the message
  without the values formatted into it.
\<close>

definition CoreCoevalModule_build_model_data ::
  "structs \<Rightarrow> engine \<Rightarrow> pyobj \<Rightarrow> ctx \<Rightarrow> ctx io" where
  "CoreCoevalModule_build_model_data p21 eng self c =
     io_bind (emit (LogDebug ''Updating parameters'')) (\<lambda>u.
     io_bind (io_lift (update_params p21 self (ctx_params c))) (\<lambda>(astro_params, cosmo_params).
     io_bind (emit (LogDebug ''AstroParams'')) (\<lambda>u.
     io_bind (get_current_init_and_perturb eng self cosmo_params)
       (\<lambda>(initial_conditions, perturb_field).
     io_bind (io_lift (run_coeval_kwargs self astro_params initial_conditions perturb_field)) (\<lambda>kw.
     io_bind (call_engine eng ''run_coeval'' kw) (\<lambda>coeval.
     io_bind (emit (LogDebug ''Adding to context data'')) (\<lambda>u.
     io_bind (io_lift (bind_err (getattr self ''ctx_variables'') py_iter)) (\<lambda>keys.
       io_lift (add_ctx_variables keys coeval c)))))))))"

text \<open>Setup, then the iterations of the sampler, each on its own context.\<close>

fun iterations :: "structs \<Rightarrow> engine \<Rightarrow> pyobj \<Rightarrow> ctx list \<Rightarrow> ctx list io" where
  "iterations p21 eng self [] = io_return []"
| "iterations p21 eng self (c # cs) =
     io_bind (CoreCoevalModule_build_model_data p21 eng self c) (\<lambda>c'.
     io_bind (iterations p21 eng self cs) (\<lambda>cs'. io_return (c' # cs')))"

definition setup_and_iterate ::
  "structs \<Rightarrow> engine \<Rightarrow> chain option \<Rightarrow> pyobj \<Rightarrow> ctx list \<Rightarrow> (pyobj \<times> ctx list) io" where
  "setup_and_iterate p21 eng ch self cs =
     io_bind (CoreCoevalModule_setup p21 eng ch self) (\<lambda>s.
     io_bind (iterations p21 eng s cs) (\<lambda>cs'. io_return (s, cs')))"

definition ic_calls :: "world \<Rightarrow> event list" where
  "ic_calls w = filter (\<lambda>(f, kw). f = ''initial_conditions'') (calls w)"

definition pf_calls :: "world \<Rightarrow> event list" where
  "pf_calls w = filter (\<lambda>(f, kw). f = ''perturb_field'') (calls w)"

definition empty_world :: world where
  "empty_world = \<lparr>calls = [], logs = []\<rparr>"

section \<open>The luminosity function module\<close>

text \<open>\<^verbatim>\<open>CoreLuminosityFunction.setup\<close>\<close>

definition CoreLuminosityFunction_setup ::
  "structs \<Rightarrow> chain option \<Rightarrow> pyobj \<Rightarrow> error + pyobj" where
  "CoreLuminosityFunction_setup p21 ch self =
     bind_err (ModuleBase_setup ch self) (\<lambda>s0.
     bind_err (chain_of ch) (\<lambda>c.
     bind_err (update_params p21 s0 (ch_fresh_params c)) (\<lambda>(ap, cp).
       Inr (setattr (setattr s0 ''astro_params'' ap) ''cosmo_params'' cp))))"

text \<open>\<^verbatim>\<open>CoreLuminosityFunction.run(astro_params, cosmo_params)\<close>\<close>

definition lf_run :: "engine \<Rightarrow> pyobj \<Rightarrow> pyval \<Rightarrow> pyval \<Rightarrow> pyval io" where
  "lf_run eng self astro_params cosmo_params =
     io_bind (io_lift (getattr self ''redshift'')) (\<lambda>zs.
     io_bind (io_lift (getattr self ''flag_options'')) (\<lambda>fo.
     io_bind (io_lift (getattr self ''user_params'')) (\<lambda>up.
     io_bind (io_lift (getattr self ''n_muv_bins'')) (\<lambda>nbins.
       call_engine eng ''compute_luminosity_function''
         [(''redshifts'', zs), (''astro_params'', astro_params), (''flag_options'', fo),
          (''cosmo_params'', cosmo_params), (''user_params'', up), (''nbins'', nbins)]))))"

text \<open>\<^verbatim>\<open>np.isnan(l)\<close> and \<^verbatim>\<open>m[mask]\<close> for one-dimensional arrays\<close>

definition np_isnan :: "pyval \<Rightarrow> error + bool list" where
  "np_isnan l = (case l of PArray xs \<Rightarrow> Inr (map (\<lambda>x. x = NaN) xs) | _ \<Rightarrow> Inl TypeError)"

definition mask_index :: "pyval \<Rightarrow> bool list \<Rightarrow> error + pyval" where
  "mask_index m msk =
     (case m of
        PArray xs \<Rightarrow>
          (if length xs \<noteq> length msk then Inl IndexError
           else Inr (PArray (map fst (filter snd (zip xs msk)))))
      | _ \<Rightarrow> Inl TypeError)"

text \<open>\<^verbatim>\<open>[m[~np.isnan(l)] for l, m in zip(ls, ms)]\<close>\<close>

fun filter_rows :: "pyval list \<Rightarrow> pyval list \<Rightarrow> error + pyval list" where
  "filter_rows (l # ls) (m # ms) =
     bind_err (np_isnan l) (\<lambda>nan.
     bind_err (mask_index m (map Not nan)) (\<lambda>r.
     bind_err (filter_rows ls ms) (\<lambda>rs. Inr (r # rs))))"
| "filter_rows ls ms = Inr []"

definition filter_nan :: "pyval \<Rightarrow> pyval \<Rightarrow> error + pyval" where
  "filter_nan lfunc m =
     bind_err (py_iter lfunc) (\<lambda>ls.
     bind_err (py_iter m) (\<lambda>ms.
     bind_err (filter_rows ls ms) (\<lambda>rs. Inr (PList rs))))"

text \<open>\<^verbatim>\<open>Muv, mhalo, lfunc = x\<close>\<close>

definition unpack3 :: "pyval \<Rightarrow> error + (pyval \<times> pyval \<times> pyval)" where
  "unpack3 x =
     bind_err (py_iter x) (\<lambda>xs.
       case xs of [a, b, c] \<Rightarrow> Inr (a, b, c) | _ \<Rightarrow> Inl (ValueError ''unpack''))"

definition lf_key :: "pyobj \<Rightarrow> error + string" where
  "lf_key self =
     bind_err (getattr self ''name'') (\<lambda>n.
       case n of PStr nm \<Rightarrow> Inr (''luminosity_function'' @ nm) | _ \<Rightarrow> Inl TypeError)"

text \<open>\<^verbatim>\<open>CoreLuminosityFunction.build_model_data(ctx)\<close>\<close>

definition CoreLuminosityFunction_build_model_data ::
  "structs \<Rightarrow> engine \<Rightarrow> pyobj \<Rightarrow> ctx \<Rightarrow> ctx io" where
  "CoreLuminosityFunction_build_model_data p21 eng self c =
     io_bind (io_lift (update_params p21 self (ctx_params c))) (\<lambda>(astro_params, cosmo_params).
     io_bind (lf_run eng self astro_params cosmo_params) (\<lambda>res.
     io_bind (io_lift (unpack3 res)) (\<lambda>(Muv, mhalo, lfunc).
     io_bind (io_lift (filter_nan lfunc Muv)) (\<lambda>Muv'.
     io_bind (io_lift (filter_nan lfunc mhalo)) (\<lambda>mhalo'.
     io_bind (io_lift (filter_nan lfunc lfunc)) (\<lambda>lfunc'.
     io_bind (io_lift (lf_key self)) (\<lambda>key.
       io_return (ctx_add c key
                 (PDict [(''Muv'', Muv'), (''mhalo'', mhalo'), (''lfunc'', lfunc')])))))))))"

text \<open>
  The property \<^verbatim>\<open>sigma\<close>: \<^verbatim>\<open>None\<close> when \<^verbatim>\<open>_sigma\<close> is; else one entry per redshift, the
  value repeated when it has no length or not the length of \<^verbatim>\<open>redshift\<close>.
\<close>

definition len_redshift :: "pyobj \<Rightarrow> error + nat" where
  "len_redshift self = bind_err (getattr self ''redshift'') py_len"

definition sigma :: "pyobj \<Rightarrow> error + pyval" where
  "sigma self =
     bind_err (getattr self ''_sigma'') (\<lambda>s.
       if s = PNone then Inr PNone
       else if \<not> has_len s
         then bind_err (len_redshift self) (\<lambda>n. Inr (PList (replicate n s)))
       else bind_err (py_len s) (\<lambda>k.
            bind_err (len_redshift self) (\<lambda>n.
              if k \<noteq> n then Inr (PList (replicate n s)) else Inr s)))"

text \<open>
  A noise function is a callable \<open>PRef n\<close>, answered by a table of the callables;
  \<^verbatim>\<open>np.random.normal(loc=0, scale=s, size=n)\<close> is a parameter as well, given the number of the
  redshift it is drawn for, and returns the \<open>n\<close> draws or raises.
\<close>

type_synonym noise_fns = "nat \<Rightarrow> pyval \<Rightarrow> error + pyval"

type_synonym normal = "nat \<Rightarrow> pyval \<Rightarrow> nat \<Rightarrow> error + npfloat list"

definition call_noise :: "noise_fns \<Rightarrow> pyval \<Rightarrow> pyval \<Rightarrow> error + pyval" where
  "call_noise fns s x = (case s of PRef n \<Rightarrow> fns n x | _ \<Rightarrow> Inl TypeError)"

text \<open>Addition of floats, with a real sum standing for the rounded one, and of arrays\<close>

fun fl_add :: "npfloat \<Rightarrow> npfloat \<Rightarrow> npfloat" where
  "fl_add (Fin a) (Fin b) = Fin (a + b)"
| "fl_add x y = NaN"

definition iadd :: "pyval \<Rightarrow> npfloat list \<Rightarrow> error + pyval" where
  "iadd a noise =
     (case a of
        PArray xs \<Rightarrow>
          (if length xs \<noteq> length noise then Inl (ValueError ''broadcast'')
           else Inr (PArray (map (\<lambda>(x, y). fl_add x y) (zip xs noise))))
      | _ \<Rightarrow> Inl TypeError)"

definition item :: "pyval list \<Rightarrow> nat \<Rightarrow> error + pyval" where
  "item xs i = (if i < length xs then Inr (xs ! i) else Inl IndexError)"

text \<open>
  \<^verbatim>\<open>lfunc[i] += np.random.normal(loc=0, scale=sc, size=len(lfunc[i]))\<close>: the new list
\<close>

definition add_noise ::
  "normal \<Rightarrow> pyval list \<Rightarrow> nat \<Rightarrow> error + pyval \<Rightarrow> error + pyval list" where
  "add_noise nrm lfunc i scale =
     bind_err (item lfunc i) (\<lambda>a.
     bind_err scale (\<lambda>sc.
     bind_err (item lfunc i) (\<lambda>b.
     bind_err (py_len b) (\<lambda>n.
     bind_err (nrm i sc n) (\<lambda>noise.
     bind_err (iadd a noise) (\<lambda>r. Inr (lfunc[i := r])))))))"

text \<open>
  The loop of \<^verbatim>\<open>convert_model_to_mock\<close> over \<^verbatim>\<open>enumerate(self.sigma)\<close>: the scale is
  \<^verbatim>\<open>s(muv)\<close>, and \<^verbatim>\<open>s\<close> itself when that attempt raises \<^verbatim>\<open>TypeError\<close>.
\<close>

fun mock_loop ::
  "noise_fns \<Rightarrow> normal \<Rightarrow> pyval \<Rightarrow> nat \<Rightarrow> pyval list \<Rightarrow> pyval list \<Rightarrow> error + pyval list" where
  "mock_loop fns nrm muv i [] lfunc = Inr lfunc"
| "mock_loop fns nrm muv i (s # ss) lfunc =
     (case add_noise nrm lfunc i (call_noise fns s muv) of
        Inl TypeError \<Rightarrow>
          bind_err (add_noise nrm lfunc i (Inr s)) (\<lambda>l. mock_loop fns nrm muv (Suc i) ss l)
      | Inl e \<Rightarrow> Inl e
      | Inr l \<Rightarrow> mock_loop fns nrm muv (Suc i) ss l)"

text \<open>
  \<^verbatim>\<open>CoreLuminosityFunction.convert_model_to_mock(ctx)\<close>. The list \<^verbatim>\<open>lfunc\<close> is the one in the
  context's entry, updated in place: the result is the context with the entry's list renewed.
\<close>

definition mock_error :: error where
  "mock_error = ValueError ''Cannot create a mock with sigma=None!''"

definition convert_model_to_mock ::
  "noise_fns \<Rightarrow> normal \<Rightarrow> pyobj \<Rightarrow> ctx \<Rightarrow> error + ctx" where
  "convert_model_to_mock fns nrm self c =
     bind_err (sigma self) (\<lambda>sg.
       if sg = PNone then Inl mock_error
       else
         bind_err (lf_key self) (\<lambda>key.
         bind_err (subscript (ctx_get c key) ''lfunc'') (\<lambda>lfunc.
         bind_err (subscript (ctx_get c key) ''Muv'') (\<lambda>muv.
         bind_err (sigma self) (\<lambda>sg'.
         bind_err (py_iter sg') (\<lambda>ss.
         bind_err (py_iter lfunc) (\<lambda>ls.
         bind_err (mock_loop fns nrm muv 0 ss ls) (\<lambda>ls'.
         bind_err (as_dict (ctx_get c key)) (\<lambda>d.
           Inr (ctx_add c key (PDict (AList.update ''lfunc'' (PList ls') d))))))))))))"

section \<open>Concrete modules\<close>

text \<open>
  The coeval module that \<^verbatim>\<open>CoreCoevalModule(redshift=7.0)\<close> constructs, with the stand-in
  structures, and the one constructed with \<^verbatim>\<open>change_seed_every_iter=True\<close> in addition.
\<close>

definition coeval7 :: pyobj where
  "coeval7 =
     \<lparr>cls = CoreCoevalModule_class,
      attrs = [''_is_setup'' \<mapsto> PBool False, ''store'' \<mapsto> PDict [],
               ''redshift'' \<mapsto> PList [PFloat 7],
               ''user_params'' \<mapsto> PStruct ''UserParams'' [] [],
               ''flag_options'' \<mapsto> PStruct ''FlagOptions'' [] [],
               ''astro_params'' \<mapsto> PStruct ''AstroParams'' [] [],
               ''cosmo_params'' \<mapsto> PStruct ''CosmoParams'' [] [],
               ''change_seed_every_iter'' \<mapsto> PBool False,
               ''initial_conditions_seed'' \<mapsto> PNone,
               ''regenerate'' \<mapsto> PBool True,
               ''ctx_variables'' \<mapsto> PTuple [PStr ''brightness_temp'', PStr ''xH_box''],
               ''global_params'' \<mapsto> PDict [],
               ''io_options'' \<mapsto> PDict [(''store'', PDict []), (''cache_dir'', PNone),
                                              (''cache_mcmc'', PBool False)]]\<rparr>"


text \<open>The light-cone module of \<^verbatim>\<open>CoreLightConeModule(redshift=7.0, max_redshift=m)\<close>\<close>

definition lightcone7 :: "pyval \<Rightarrow> pyobj" where
  "lightcone7 m = setattr (coeval7\<lparr>cls := CoreLightConeModule_class\<rparr>) ''max_redshift'' m"

text \<open>
  A core class and a likelihood class of a plugin, each with
  \<^verbatim>\<open>required_cores = (CoreCoevalModule,)\<close>, an instance of each, and a chain that has loaded
  the coeval module and the core.
\<close>

definition needy_class :: pyclass where
  "needy_class =
     \<lparr>cname = ''NeedyCore'', mro = (UserClass 0, [''self'', ''store'']) # CoreBase_mro,
      kwonly = [], extra_defining_attributes = [], ignore_attributes = [],
      required_cores = [ReqClass CoreCoevalModule]\<rparr>"

definition needy :: pyobj where
  "needy = CoreBase_init (new_instance needy_class) None"

definition needy_likelihood_class :: pyclass where
  "needy_likelihood_class =
     \<lparr>cname = ''NeedyLikelihood'', mro = (UserClass 1, [''self'']) # ModuleBase_mro,
      kwonly = [], extra_defining_attributes = [], ignore_attributes = [],
      required_cores = [ReqClass CoreCoevalModule]\<rparr>"

definition needy_likelihood :: pyobj where
  "needy_likelihood = ModuleBase_init (new_instance needy_likelihood_class)"

definition needy_chain :: chain where
  "needy_chain = \<lparr>ch_params = None, ch_cores = [coeval7, needy], ch_fresh_params = []\<rparr>"

text \<open>
  What survives of a row \<open>m\<close> when the entries at the not-a-number positions of the row \<open>l\<close>
  are discarded.
\<close>

definition retained :: "npfloat list \<Rightarrow> 'a list \<Rightarrow> 'a list" where
  "retained l m = map fst (filter (\<lambda>(x, y). y \<noteq> NaN) (zip m l))"

text \<open>
  An engine for concrete evaluations. Its luminosity function has two redshifts and three
  bins; every output object has the number of the call that made it as its identity; the
  initial conditions report the seed they are given, or 42.
\<close>

definition demo_engine :: engine where
  "demo_engine hist f kw =
     (if f = ''compute_luminosity_function'' then
        Inr (PTuple [PArray2 [[Fin (-20), Fin (-19), Fin (-18)], [Fin (-20), Fin (-19), Fin (-18)]],
                     PArray2 [[Fin 10, Fin 11, Fin 12], [Fin 10, NaN, Fin 12]],
                     PArray2 [[Fin 1, NaN, Fin 3], [NaN, NaN, Fin 2]]])
      else if f = ''initial_conditions'' then
        Inr (PObject (length hist)
               [(''random_seed'',
                 (case map_of kw ''random_seed'' of Some (PInt n) \<Rightarrow> PInt n | _ \<Rightarrow> PInt 42))])
      else if f = ''perturb_field'' then
        Inr (PObject (length hist) [(''redshift'', dict_get kw ''redshift'' PNone)])
      else if f = ''run_coeval'' then
        (case map_of kw ''redshift'' of
           Some (PList zs) \<Rightarrow>
             Inr (PList (map (\<lambda>z. PObject (length hist)
                                  [(''redshift'', z), (''brightness_temp'', PArray [Fin 1]),
                                   (''xH_box'', PArray [Fin 0])]) zs))
         | _ \<Rightarrow> Inl (EngineError ''redshift''))
      else Inl (EngineError f))"

text \<open>
  The module of \<^verbatim>\<open>CoreLuminosityFunction(redshift=7.0, name="_faint")\<close>, with no \<^verbatim>\<open>sigma\<close>
\<close>

definition lf7 :: pyobj where
  "lf7 = setattr (setattr (setattr (coeval7\<lparr>cls := CoreLuminosityFunction_class\<rparr>)
            ''_sigma'' PNone) ''name'' (PStr ''_faint'')) ''n_muv_bins'' (PInt 100)"

section \<open>Basic facts\<close>

lemma attrs_setattr [simp]: "attrs (setattr ob a v) = (attrs ob)(a \<mapsto> v)"
  by (simp add: setattr_def)

lemma cls_setattr [simp]: "cls (setattr ob a v) = cls ob"
  by (simp add: setattr_def)


lemma bind_err_simps [simp]:
  "bind_err (Inr x) f = f x" "bind_err (Inl e) f = Inl e"
  by (simp_all add: bind_err_def)

lemma bind_err_Inr_iff: "bind_err m f = Inr y \<longleftrightarrow> (\<exists>x. m = Inr x \<and> f x = Inr y)"
  by (cases m) simp_all

lemma plain_structs_PNone [simp]: "plain_structs c PNone = Inr (PStruct c [] [])"
  by (simp add: plain_structs_def)

section \<open>Construction of a coeval module\<close>

lemma CoreCoevalModule_init_succeeds:
  "(\<exists>r. CoreCoevalModule_init p21 self a = Inr r) \<longleftrightarrow>
     (\<exists>up fo ap cp. p21 ''UserParams'' (a_user_params a) = Inr up
        \<and> p21 ''FlagOptions'' (a_flag_options a) = Inr fo
        \<and> p21 ''AstroParams'' (a_astro_params a) = Inr ap
        \<and> p21 ''CosmoParams'' (a_cosmo_params a) = Inr cp)"
  by (cases "p21 ''UserParams'' (a_user_params a)"; cases "p21 ''FlagOptions'' (a_flag_options a)";
      cases "p21 ''AstroParams'' (a_astro_params a)"; cases "p21 ''CosmoParams'' (a_cosmo_params a)")
     (simp_all add: CoreCoevalModule_init_def Let_def)

lemma init_seed_attr:
  assumes "CoreCoevalModule_init p21 self a = Inr (ob, lg)"
  shows "attrs ob ''initial_conditions_seed'' =
           Some (if seed_truthy (a_initial_conditions_seed a) \<and> a_change_seed_every_iter a
                 then PNone else seed_val (a_initial_conditions_seed a))"
    and "lg = (if seed_truthy (a_initial_conditions_seed a) \<and> a_change_seed_every_iter a
               then [LogWarning seed_warning] else [])"
    and "attrs ob ''change_seed_every_iter'' = Some (PBool (a_change_seed_every_iter a))"
  using assms
  by (auto simp: CoreCoevalModule_init_def bind_err_Inr_iff Let_def CoreBase_init_def
                 ModuleBase_init_def split: if_splits)



lemma plain_init_succeeds:
  assumes "a_user_params a = PNone" "a_flag_options a = PNone"
    "a_astro_params a = PNone" "a_cosmo_params a = PNone"
  shows "\<exists>ob lg. CoreCoevalModule_init plain_structs self a = Inr (ob, lg)"
proof -
  have "\<exists>r. CoreCoevalModule_init plain_structs self a = Inr r"
    unfolding CoreCoevalModule_init_succeeds using assms by simp
  then show ?thesis by auto
qed

lemma default_init_succeeds:
  "\<exists>ob lg. CoreCoevalModule_init plain_structs self
     ((default_args z)\<lparr>a_initial_conditions_seed := s, a_change_seed_every_iter := b\<rparr>)
     = Inr (ob, lg)"
  by (rule plain_init_succeeds) (simp_all add: default_args_def)

text \<open>
  A fixed seed other than 0 given together with \<^verbatim>\<open>change_seed_every_iter=True\<close> is dropped,
  with the warning.
\<close>

lemma fixed_seed_discarded:
  assumes "CoreCoevalModule_init p21 self
             (a\<lparr>a_initial_conditions_seed := Some n, a_change_seed_every_iter := True\<rparr>)
           = Inr (ob, lg)" and "n \<noteq> 0"
  shows "lg = [LogWarning seed_warning] \<and> attrs ob ''initial_conditions_seed'' = Some PNone
         \<and> attrs ob ''change_seed_every_iter'' = Some (PBool True)"
  using init_seed_attr [OF assms(1)] assms(2) by (simp add: seed_truthy_def seed_val_def)

text \<open>
  Claim C5 (every coeval module constructed with a fixed seed and \<^verbatim>\<open>change_seed_every_iter=True\<close>
  is constructed, logs a warning and has its seed unset), at the fixed seed 0: the module is
  constructed, nothing is logged and the seed is still 0.
\<close>

theorem fixed_seed_zero_not_discarded:
  "case CoreCoevalModule_init plain_structs (new_instance CoreCoevalModule_class)
          ((default_args (PList [PFloat 6, PFloat 7, PFloat 8]))
             \<lparr>a_initial_conditions_seed := Some 0, a_change_seed_every_iter := True\<rparr>) of
     Inl e \<Rightarrow> False
   | Inr (ob, lg) \<Rightarrow> attrs ob ''initial_conditions_seed'' = Some (PInt 0) \<and> lg = []"
proof -
  obtain ob lg where
    h: "CoreCoevalModule_init plain_structs (new_instance CoreCoevalModule_class)
          ((default_args (PList [PFloat 6, PFloat 7, PFloat 8]))
             \<lparr>a_initial_conditions_seed := Some 0, a_change_seed_every_iter := True\<rparr>)
        = Inr (ob, lg)"
    using default_init_succeeds by blast
  show ?thesis
    using init_seed_attr(1,2) [OF h] by (simp add: h seed_truthy_def seed_val_def)
qed

text \<open>
  Claim C10: a coeval module constructed with \<^verbatim>\<open>initial_conditions_seed=0\<close> and
  \<^verbatim>\<open>change_seed_every_iter=True\<close> is not corrected: no warning is logged and the seed is 0
  after construction, whatever the other arguments are.
\<close>

theorem seed_zero_escapes_correction:
  assumes "CoreCoevalModule_init p21 self
             (a\<lparr>a_initial_conditions_seed := Some 0, a_change_seed_every_iter := True\<rparr>)
           = Inr (ob, lg)"
  shows "lg = [] \<and> attrs ob ''initial_conditions_seed'' = Some (PInt 0)
         \<and> attrs ob ''change_seed_every_iter'' = Some (PBool True)"
  using init_seed_attr [OF assms] by (simp add: seed_truthy_def seed_val_def)

theorem seed_zero_escapes_correction_witness:
  "case CoreCoevalModule_init plain_structs (new_instance CoreCoevalModule_class)
          ((default_args (PFloat 7))
             \<lparr>a_initial_conditions_seed := Some 0, a_change_seed_every_iter := True\<rparr>) of
     Inl e \<Rightarrow> False
   | Inr (ob, lg) \<Rightarrow> lg = [] \<and> attrs ob ''initial_conditions_seed'' = Some (PInt 0)
         \<and> attrs ob ''change_seed_every_iter'' = Some (PBool True)"
proof -
  obtain ob lg where
    h: "CoreCoevalModule_init plain_structs (new_instance CoreCoevalModule_class)
          ((default_args (PFloat 7))
             \<lparr>a_initial_conditions_seed := Some 0, a_change_seed_every_iter := True\<rparr>)
        = Inr (ob, lg)"
    using default_init_succeeds by blast
  show ?thesis using seed_zero_escapes_correction [OF h] by (simp add: h)
qed



section \<open>Equality\<close>

lemma step_True_iff:
  "(case attr_differs ne v other name of
      Inl (ValueError m) \<Rightarrow> rest
    | Inl e \<Rightarrow> Inl e
    | Inr d \<Rightarrow> (if d then Inr False else rest)) = Inr True
   \<longleftrightarrow> not_unequal ne v other name \<and> rest = Inr True"
proof (cases "attr_differs ne v other name")
  case (Inl e)
  then show ?thesis by (cases e) (simp_all add: not_unequal_def)
next
  case (Inr d)
  then show ?thesis by (simp add: not_unequal_def)
qed

lemma eq_loop_True_iff:
  "eq_loop ne self other names = Inr True \<longleftrightarrow>
     list_all (attr_agrees ne self other)
       (filter (\<lambda>arg. arg \<noteq> ''self'' \<and> arg \<notin> set (ignore_attributes (cls self))) names)"
proof (induction names)
  case Nil
  then show ?case by simp
next
  case (Cons arg args)
  show ?case
  proof (cases "arg = ''self'' \<or> arg \<in> set (ignore_attributes (cls self))")
    case True
    then show ?thesis using Cons by auto
  next
    case False
    have "eq_loop ne self other (arg # args) = Inr True \<longleftrightarrow>
            attr_agrees ne self other arg \<and> eq_loop ne self other args = Inr True"
      using False
      by (simp add: step_True_iff attr_agrees_def split: option.split)
    then show ?thesis using False Cons by simp
  qed
qed



lemma lightcone_compared_names:
  "compared_names CoreLightConeModule_class =
     [''redshift'', ''user_params'', ''flag_options'', ''astro_params'',
       ''cosmo_params'', ''regenerate'', ''change_seed_every_iter'', ''ctx_variables'',
       ''initial_conditions_seed'', ''global_params'', ''store'']"
  by (simp add: compared_names_def defining_names_def CoreLightConeModule_class_def
      CoreCoevalModule_mro_def CoreBase_mro_def ModuleBase_mro_def object_args_def)

lemmas init_unfold =
  CoreCoevalModule_init_def default_args_def Let_def CoreBase_init_def ModuleBase_init_def
  new_instance_def store_option_def seed_truthy_def seed_val_def dict_update_def
  io_defaults_def setattr_def







text \<open>
  The parameter \<^verbatim>\<open>max_redshift\<close> of the light-cone module is keyword-only, so reflection does
  not collect it: two light-cone modules that differ in it alone are equal.
\<close>

lemma init_lightcone7:
  "CoreLightConeModule_init plain_structs (new_instance CoreLightConeModule_class) m False
     (default_args (PFloat 7)) = Inr (lightcone7 m, [])"
  by (simp add: CoreLightConeModule_init_def init_unfold coeval7_def lightcone7_def)

lemma lightcone_max_redshift_not_compared:
  "eq_constructed py_ne
     (CoreLightConeModule_init plain_structs (new_instance CoreLightConeModule_class)
        (PFloat 10) False (default_args (PFloat 7)))
     (CoreLightConeModule_init plain_structs (new_instance CoreLightConeModule_class)
        (PFloat 20) False (default_args (PFloat 7))) = Inr True"
  unfolding init_lightcone7 eq_constructed_def ModuleBase_eq_def
  by (simp add: eq_loop_True_iff lightcone7_def
                lightcone_compared_names [unfolded compared_names_def])
     (simp add: attr_agrees_def not_unequal_def attr_differs_def getattr_def coeval7_def
                CoreLightConeModule_class_def)

section \<open>Required cores\<close>

text \<open>
  The check of \<^verbatim>\<open>ModuleBase\<close> passes exactly when every group has a loaded stage that is an
  instance of one of its members; its error names \<^verbatim>\<open>tuple\<close>.
\<close>

lemma ModuleBase_check_iff:
  "ModuleBase_check_required_cores (Some c) self rcs = Inr ()
     \<longleftrightarrow> list_all (group_satisfied (ch_cores c)) rcs"
  by (induction rcs) (simp_all add: cores_of_def chain_of_def group_satisfied_def)

lemma ModuleBase_check_error:
  "ModuleBase_check_required_cores (Some c) self rcs = Inl e
     \<Longrightarrow> e = ValueError (cname (cls self) @ '' needs the tuple to be loaded.'')"
  by (induction rcs) (auto simp: cores_of_def chain_of_def split: if_splits)

text \<open>
  Claim C3 (setup raises an error naming the missing requirement when a group of
  \<^verbatim>\<open>required_cores\<close> has no loaded instance, and succeeds when every group has one), at a core
  whose only requirement is loaded: the requirement is satisfied by the chain, setup of the
  core raises, with a message that names \<^verbatim>\<open>type\<close>, and setup of a likelihood with the same
  requirement on the same chain succeeds.
\<close>

theorem core_setup_fails_with_requirement_loaded:
  "list_all (group_satisfied (ch_cores needy_chain)) (required_cores (cls needy))
   \<and> ModuleBase_setup (Some needy_chain) needy
       = Inl (ValueError ''NeedyCore requires type to be loaded.'')
   \<and> ModuleBase_setup (Some needy_chain) needy_likelihood = Inr needy_likelihood"
  by (simp add: ModuleBase_setup_def check_required_cores_def CoreBase_check_required_cores_def
      cores_of_def chain_of_def needy_chain_def needy_def needy_likelihood_def
      CoreBase_init_def ModuleBase_init_def new_instance_def needy_class_def
      needy_likelihood_class_def group_satisfied_def isinstance_def
      coeval7_def CoreCoevalModule_class_def CoreCoevalModule_mro_def CoreBase_mro_def
      ModuleBase_mro_def object_args_def)

section \<open>Storage\<close>

lemma dict_update_Nil [simp]: "dict_update d [] = d"
  by (simp add: dict_update_def)

lemma dict_update_Cons [simp]:
  "dict_update d ((k, v) # new) = dict_update (AList.update k v d) new"
  by (simp add: dict_update_def)

lemma map_of_dict_update_notin:
  "\<forall>d. k \<notin> fst ` set new \<longrightarrow> map_of (dict_update d new) k = map_of d k"
  by (induction new) (auto simp: update_conv')

lemma map_of_dict_update_in:
  "\<forall>d. distinct (map fst new) \<longrightarrow> (k, v) \<in> set new
        \<longrightarrow> map_of (dict_update d new) k = Some v"
proof (induction new)
  case Nil
  then show ?case by simp
next
  case (Cons p new)
  obtain k' v' where p: "p = (k', v')" by (cases p)
  show ?case
  proof (intro allI impI)
    fix d
    assume dist: "distinct (map fst (p # new))" and mem: "(k, v) \<in> set (p # new)"
    show "map_of (dict_update d (p # new)) k = Some v"
    proof (cases "(k, v) = (k', v')")
      case True
      then have "k \<notin> fst ` set new" using dist p by auto
      then show ?thesis
        using True map_of_dict_update_notin [of k new] by (simp add: p update_conv')
    next
      case False
      then have "(k, v) \<in> set new" using mem p by auto
      then show ?thesis using Cons dist by (simp add: p)
    qed
  qed
qed

lemma prepare_storage_loop_prefix:
  "\<forall>vs storage. map (\<lambda>(k, g). call_store fns g c) pre = map Inr vs
     \<longrightarrow> call_store fns f c = Inl e
     \<longrightarrow> prepare_storage_loop fns c (pre @ (name, f) # rest) storage
         = (dict_update storage (zip (map fst pre) vs),
            [LogError (''Exception while trying to evaluate storage function '' @ name)],
            Some e)"
proof (induction pre)
  case Nil
  then show ?case by simp
next
  case (Cons p pre)
  obtain k g where p: "p = (k, g)" by (cases p)
  show ?case
  proof (intro allI impI)
    fix vs storage
    assume a: "map (\<lambda>(k, g). call_store fns g c) (p # pre) = map Inr vs"
      and b: "call_store fns f c = Inl e"
    from a obtain v vs' where vs: "vs = v # vs'"
      and v: "call_store fns g c = Inr v"
      and rest: "map (\<lambda>(k, g). call_store fns g c) pre = map Inr vs'"
      by (cases vs) (auto simp: p)
    show "prepare_storage_loop fns c ((p # pre) @ (name, f) # rest) storage
         = (dict_update storage (zip (map fst (p # pre)) vs),
            [LogError (''Exception while trying to evaluate storage function '' @ name)],
            Some e)"
      using Cons rest b by (simp add: p vs v)
  qed
qed

text \<open>
  Claim C9: when the storage function of an entry of \<^verbatim>\<open>store\<close> raises, \<^verbatim>\<open>prepare_storage\<close>
  leaves with that exception, after logging it, and the storage dictionary holds what the
  entries before the failing one have written: each of their names maps to the value its
  function returned. Nothing is rolled back.
\<close>

theorem prepare_storage_keeps_earlier_writes:
  assumes "attrs self ''store'' = Some (PDict (pre @ (name, f) # rest))"
    and "distinct (map fst pre)"
    and "map (\<lambda>(k, g). call_store fns g c) pre = map Inr vs"
    and "call_store fns f c = Inl e"
  shows "prepare_storage fns self c storage
         = (dict_update storage (zip (map fst pre) vs),
            [LogError (''Exception while trying to evaluate storage function '' @ name)],
            Some e)
       \<and> (\<forall>i < length pre.
             map_of (dict_update storage (zip (map fst pre) vs)) (fst (pre ! i))
             = Some (vs ! i))"
proof -
  have len: "length pre = length vs"
    using assms(3) by (metis length_map)
  have "map_of (dict_update storage (zip (map fst pre) vs)) (fst (pre ! i)) = Some (vs ! i)"
    if "i < length pre" for i
  proof -
    have "distinct (map fst (zip (map fst pre) vs))" using assms(2) len by simp
    moreover have "(fst (pre ! i), vs ! i) \<in> set (zip (map fst pre) vs)"
      using that len by (auto simp: set_zip intro!: exI [of _ i])
    ultimately show ?thesis using map_of_dict_update_in by blast
  qed
  then show ?thesis
    using prepare_storage_loop_prefix assms(3,4)
    by (simp add: prepare_storage_def assms(1))
qed

theorem prepare_storage_keeps_earlier_writes_witness:
  "prepare_storage demo_store_fns (setattr coeval7 ''store''
       (PDict [(''one'', PRef 0), (''x'', PRef 1), (''bad'', PRef 2), (''late'', PRef 0)]))
     \<lparr>ctx_params = [], ctx_data = [''x'' \<mapsto> PFloat 3]\<rparr> [(''old'', PNone)]
   = ([(''old'', PNone), (''one'', PInt 1), (''x'', PFloat 3)],
      [LogError ''Exception while trying to evaluate storage function bad''],
      Some (KeyError ''missing''))"
proof -
  let ?self = "setattr coeval7 ''store''
       (PDict [(''one'', PRef 0), (''x'', PRef 1), (''bad'', PRef 2), (''late'', PRef 0)])"
  let ?c = "\<lparr>ctx_params = [], ctx_data = [''x'' \<mapsto> PFloat 3]\<rparr>"
  have a1: "attrs ?self ''store''
      = Some (PDict ([(''one'', PRef 0), (''x'', PRef 1)] @ (''bad'', PRef 2) # [(''late'', PRef 0)]))"
    by simp
  have a2: "distinct (map fst [(''one'', PRef 0), (''x'', PRef 1)])" by simp
  have a3: "map (\<lambda>(k, g). call_store demo_store_fns g ?c) [(''one'', PRef 0), (''x'', PRef 1)]
      = map Inr [PInt 1, PFloat 3]"
    by (simp add: call_store_def demo_store_fns_def ctx_get_def)
  have a4: "call_store demo_store_fns (PRef 2) ?c = Inl (KeyError ''missing'')"
    by (simp add: call_store_def demo_store_fns_def)
  show ?thesis
    using prepare_storage_keeps_earlier_writes [OF a1 a2 a3 a4, of "[(''old'', PNone)]"]
    by simp
qed

section \<open>The luminosity function: mock data and invalid bins\<close>

lemma init_keeps_attr:
  assumes "CoreCoevalModule_init p21 self a = Inr (ob, lg)"
    and "n \<notin> {''_is_setup'', ''store'', ''redshift'', ''user_params'', ''flag_options'',
               ''astro_params'', ''cosmo_params'', ''change_seed_every_iter'',
               ''initial_conditions_seed'', ''regenerate'', ''ctx_variables'',
               ''global_params'', ''io_options''}"
  shows "attrs ob n = attrs self n"
  using assms
  by (auto simp: CoreCoevalModule_init_def bind_err_Inr_iff Let_def CoreBase_init_def
                 ModuleBase_init_def split: if_splits)

lemma sigma_None: "attrs self ''_sigma'' = Some PNone \<Longrightarrow> sigma self = Inr PNone"
  by (simp add: sigma_def getattr_def)

lemma mock_sigma_None:
  "attrs self ''_sigma'' = Some PNone \<Longrightarrow> convert_model_to_mock fns nrm self c = Inl mock_error"
  by (simp add: convert_model_to_mock_def sigma_None)

text \<open>
  Claim C7: on a luminosity function module constructed with no \<^verbatim>\<open>sigma\<close>,
  \<^verbatim>\<open>convert_model_to_mock\<close> raises the error "Cannot create a mock with sigma=None!", whatever
  the context holds.
\<close>

theorem mock_without_sigma_raises:
  assumes "CoreLuminosityFunction_init p21 self PNone name n a = Inr (ob, lg)"
  shows "convert_model_to_mock fns nrm ob c = Inl (ValueError ''Cannot create a mock with sigma=None!'')"
proof -
  have "attrs ob ''_sigma'' = Some PNone"
    using init_keeps_attr [OF assms [unfolded CoreLuminosityFunction_init_def Let_def], of "''_sigma''"]
    by simp
  then show ?thesis using mock_sigma_None by (simp add: mock_error_def)
qed

lemma init_lf7:
  "CoreLuminosityFunction_init plain_structs (new_instance CoreLuminosityFunction_class)
     PNone ''_faint'' (PInt 100) (default_args (PFloat 7)) = Inr (lf7, [])"
  by (simp add: CoreLuminosityFunction_init_def init_unfold coeval7_def lf7_def fun_upd_twist)

theorem mock_without_sigma_raises_witness:
  "convert_model_to_mock (\<lambda>n x. Inr x) (\<lambda>i s n. Inr (replicate n (Fin 0))) lf7
     \<lparr>ctx_params = [], ctx_data = [''luminosity_function_faint'' \<mapsto> PDict []]\<rparr>
   = Inl (ValueError ''Cannot create a mock with sigma=None!'')"
  using mock_without_sigma_raises [OF init_lf7] by simp


lemma io_simps [simp]:
  "io_bind (io_lift (Inr x)) f w = f x w"
  "io_bind (io_lift (Inl e)) f w = (Inl e, w)"
  "io_bind (io_return x) f w = f x w"
  "io_lift r w = (r, w)"
  "io_return x w = (Inr x, w)"
  by (simp_all add: io_bind_def io_lift_def io_return_def)

lemma io_bind_Inr: "m w = (Inr x, w') \<Longrightarrow> io_bind m f w = f x w'"
  by (simp add: io_bind_def)

lemma io_bind_lift: "io_bind (io_lift r) f w = (case r of Inl e \<Rightarrow> (Inl e, w) | Inr x \<Rightarrow> f x w)"
  by (cases r) simp_all

lemma mask_index_PArray:
  "length m = length l \<Longrightarrow>
   mask_index (PArray m) (map (Not \<circ> (\<lambda>x. x = NaN)) l) = Inr (PArray (retained l m))"
proof -
  assume len: "length m = length l"
  have "map fst (filter snd (zip m (map (Not \<circ> (\<lambda>x. x = NaN)) l)))
        = map fst (filter (\<lambda>(x, y). y \<noteq> NaN) (zip m l))"
    using len by (induction m l rule: list_induct2) simp_all
  then show ?thesis using len by (simp add: mask_index_def retained_def)
qed

lemma filter_rows_arrays:
  "list_all2 (\<lambda>l m. length l = length m) ls ms \<Longrightarrow>
   filter_rows (map PArray ls) (map PArray ms)
     = Inr (map PArray (map (\<lambda>(l, m). retained l m) (zip ls ms)))"
proof (induction ls ms rule: list_all2_induct)
  case Nil
  then show ?case by simp
next
  case (Cons l ls m ms)
  then show ?case by (simp add: np_isnan_def mask_index_PArray)
qed

lemma filter_nan_arrays:
  "list_all2 (\<lambda>l m. length l = length m) ls ms \<Longrightarrow>
   filter_nan (PArray2 ls) (PArray2 ms)
     = Inr (PList (map PArray (map (\<lambda>(l, m). retained l m) (zip ls ms))))"
  by (simp add: filter_nan_def py_iter_def filter_rows_arrays)

lemma retained_self: "retained l l = filter (\<lambda>y. y \<noteq> NaN) l"
  unfolding retained_def by (induction l) simp_all

lemma retained_aligned:
  assumes "length m = length h" "length h = length l"
  shows "zip (retained l m) (zip (retained l h) (retained l l))
     = filter (\<lambda>(x, y, z). z \<noteq> NaN) (zip m (zip h l))"
  using assms unfolding retained_def by (induction m h l rule: list_induct3) simp_all

text \<open>
  Claim C6: when the engine returns the three arrays \<open>Muv\<close>, \<open>mhalo\<close> and \<open>lfunc\<close>, every row
  of the first two as long as the row of \<open>lfunc\<close> at its redshift, \<^verbatim>\<open>build_model_data\<close> stores
  under \<^verbatim>\<open>luminosity_function\<close> + name, for each redshift on its own, the rows without the
  bins where \<open>lfunc\<close> is not a number: the stored \<open>lfunc\<close> row is the raw row with those bins
  removed and holds no not-a-number, and the stored rows of \<open>Muv\<close>, \<open>mhalo\<close> and \<open>lfunc\<close>,
  read index by index, are the raw triples of the retained bins, in order.
\<close>

theorem lf_build_filters_nan:
  assumes "update_params p21 self (ctx_params c) = Inr (ap, cp)"
    and "lf_run eng self ap cp w = (Inr (PTuple [PArray2 Muv, PArray2 mhalo, PArray2 lfunc]), w')"
    and "list_all2 (\<lambda>l m. length l = length m) lfunc Muv"
    and "list_all2 (\<lambda>l m. length l = length m) lfunc mhalo"
    and "attrs self ''name'' = Some (PStr nm)"
  shows "CoreLuminosityFunction_build_model_data p21 eng self c w
         = (Inr (ctx_add c (''luminosity_function'' @ nm)
                   (PDict [(''Muv'', PList (map PArray (map (\<lambda>(l, m). retained l m) (zip lfunc Muv)))),
                           (''mhalo'', PList (map PArray (map (\<lambda>(l, m). retained l m) (zip lfunc mhalo)))),
                           (''lfunc'', PList (map PArray (map (\<lambda>(l, m). retained l m) (zip lfunc lfunc))))])),
            w')
       \<and> (\<forall>i < length lfunc.
             retained (lfunc ! i) (lfunc ! i) = filter (\<lambda>y. y \<noteq> NaN) (lfunc ! i)
           \<and> NaN \<notin> set (retained (lfunc ! i) (lfunc ! i))
           \<and> zip (retained (lfunc ! i) (Muv ! i))
                 (zip (retained (lfunc ! i) (mhalo ! i)) (retained (lfunc ! i) (lfunc ! i)))
               = filter (\<lambda>(x, y, z). z \<noteq> NaN) (zip (Muv ! i) (zip (mhalo ! i) (lfunc ! i))))"
proof -
  have self: "list_all2 (\<lambda>l m. length l = length m) lfunc lfunc"
    by (simp add: list_all2_same)
  have build: "CoreLuminosityFunction_build_model_data p21 eng self c w
         = (Inr (ctx_add c (''luminosity_function'' @ nm)
                   (PDict [(''Muv'', PList (map PArray (map (\<lambda>(l, m). retained l m) (zip lfunc Muv)))),
                           (''mhalo'', PList (map PArray (map (\<lambda>(l, m). retained l m) (zip lfunc mhalo)))),
                           (''lfunc'', PList (map PArray (map (\<lambda>(l, m). retained l m) (zip lfunc lfunc))))])),
            w')"
    unfolding CoreLuminosityFunction_build_model_data_def
    by (simp add: assms(1) io_bind_Inr [where m = "lf_run eng self ap cp", OF assms(2)] unpack3_def py_iter_def
          filter_nan_arrays [OF assms(3)] filter_nan_arrays [OF assms(4)]
          filter_nan_arrays [OF self] lf_key_def getattr_def assms(5))
  have rows: "retained (lfunc ! i) (lfunc ! i) = filter (\<lambda>y. y \<noteq> NaN) (lfunc ! i)
           \<and> NaN \<notin> set (retained (lfunc ! i) (lfunc ! i))
           \<and> zip (retained (lfunc ! i) (Muv ! i))
                 (zip (retained (lfunc ! i) (mhalo ! i)) (retained (lfunc ! i) (lfunc ! i)))
               = filter (\<lambda>(x, y, z). z \<noteq> NaN) (zip (Muv ! i) (zip (mhalo ! i) (lfunc ! i)))"
    if "i < length lfunc" for i
  proof -
    have "length (Muv ! i) = length (lfunc ! i)"
      using assms(3) that by (simp add: list_all2_conv_all_nth)
    moreover have "length (mhalo ! i) = length (lfunc ! i)"
      using assms(4) that by (simp add: list_all2_conv_all_nth)
    ultimately show ?thesis
      using retained_aligned [of "Muv ! i" "mhalo ! i" "lfunc ! i"]
      by (simp add: retained_self)
  qed
  show ?thesis using build rows by blast
qed


theorem lf_build_filters_nan_witness:
  "fst (CoreLuminosityFunction_build_model_data plain_structs demo_engine lf7
          \<lparr>ctx_params = [], ctx_data = Map.empty\<rparr> empty_world)
   = Inr (ctx_add \<lparr>ctx_params = [], ctx_data = Map.empty\<rparr> ''luminosity_function_faint''
            (PDict [(''Muv'', PList [PArray [Fin (-20), Fin (-18)], PArray [Fin (-18)]]),
                    (''mhalo'', PList [PArray [Fin 10, Fin 12], PArray [Fin 12]]),
                    (''lfunc'', PList [PArray [Fin 1, Fin 3], PArray [Fin 2]])]))"
proof -
  let ?c = "\<lparr>ctx_params = [], ctx_data = Map.empty\<rparr>"
  let ?Muv = "[[Fin (-20), Fin (-19), Fin (-18)], [Fin (-20), Fin (-19), Fin (-18)]]"
  let ?mhalo = "[[Fin 10, Fin 11, Fin 12], [Fin 10, NaN, Fin 12]]"
  let ?lfunc = "[[Fin 1, NaN, Fin 3], [NaN, NaN, Fin 2]]"
  have u: "update_params plain_structs lf7 (ctx_params ?c)
           = Inr (PStruct ''AstroParams'' [] [], PStruct ''CosmoParams'' [] [])"
    by (simp add: update_params_def getattr_def lf7_def coeval7_def struct_self_def
          struct_defining_dict_def overlay_def dict_update_def plain_structs_def)
  have r: "lf_run demo_engine lf7 (PStruct ''AstroParams'' [] []) (PStruct ''CosmoParams'' [] [])
             empty_world
           = (Inr (PTuple [PArray2 ?Muv, PArray2 ?mhalo, PArray2 ?lfunc]),
              \<lparr>calls = [(''compute_luminosity_function'',
                          [(''redshifts'', PList [PFloat 7]),
                           (''astro_params'', PStruct ''AstroParams'' [] []),
                           (''flag_options'', PStruct ''FlagOptions'' [] []),
                           (''cosmo_params'', PStruct ''CosmoParams'' [] []),
                           (''user_params'', PStruct ''UserParams'' [] []),
                           (''nbins'', PInt 100)])],
                logs = []\<rparr>)"
    by (simp add: lf_run_def getattr_def lf7_def coeval7_def call_engine_def demo_engine_def
          empty_world_def)
  have s1: "list_all2 (\<lambda>l m. length l = length m) ?lfunc ?Muv" by simp
  have s2: "list_all2 (\<lambda>l m. length l = length m) ?lfunc ?mhalo" by simp
  have n: "attrs lf7 ''name'' = Some (PStr ''_faint'')" by (simp add: lf7_def)
  show ?thesis
    using lf_build_filters_nan [OF u r s1 s2 n, THEN conjunct1]
    by (simp add: retained_def)
qed

end
